theory Spec2Isabelle
  imports Complex_Main "HOL-Library.AList" "HOL-Library.Log_Nat"
begin

section \<open>Values of the script\<close>

text \<open>
  A string of the script is its sequence of UTF-16 code units, which is what
  \<^verbatim>\<open>.length\<close>, \<^verbatim>\<open>===\<close> and property lookup see. ASCII literals are written
  through \<open>str\<close>; the Greek literals of the source are written as their code units.
\<close>

type_synonym jsstring = "nat list"

definition str :: "string \<Rightarrow> jsstring" where
  "str s = map of_char s"

text \<open>
  A number of the script is an IEEE double. A finite double is modelled by its exact
  value, a rational, and \<open>NaN\<close> is kept. The result of an arithmetic operation is the
  exact result rounded to the nearest double, a tie going to the even significand:
  \<open>fl x\<close> is the double nearest to \<open>x\<close>, with a significand of 53 bits from \<open>2 powi - 1022\<close>
  upwards and the fixed spacing \<open>2 powi - 1074\<close> below. The infinities (a result beyond
  the largest double, about 1.8e308) and the sign of zero are outside this model.
\<close>

definition round_half_even :: "rat \<Rightarrow> int" where
  "round_half_even y =
     (let f = \<lfloor>y\<rfloor>; r = y - of_int f
      in if r < 1 / 2 then f else if 1 / 2 < r then f + 1 else if even f then f else f + 1)"

text \<open>The exponent of a positive number: the \<open>e\<close> with \<open>2 powi e \<le> x < 2 powi (e + 1)\<close>.\<close>

definition ilog2 :: "rat \<Rightarrow> int" where
  "ilog2 x = (if 1 \<le> x then bitlen \<lfloor>x\<rfloor> - 1 else - bitlen (\<lceil>1 / x\<rceil> - 1))"

definition fl :: "rat \<Rightarrow> rat" where
  "fl x =
     (if x = 0 then 0
      else let e = max (ilog2 \<bar>x\<bar>) (- 1022); q = 2 powi (e - 52)
           in of_int (round_half_even (x / q)) * q)"

datatype jsnum = NaN | Num rat

fun num_plus :: "jsnum \<Rightarrow> jsnum \<Rightarrow> jsnum" where
  "num_plus (Num x) (Num y) = Num (fl (x + y))"
| "num_plus _ _ = NaN"

fun num_times :: "jsnum \<Rightarrow> jsnum \<Rightarrow> jsnum" where
  "num_times (Num x) (Num y) = Num (fl (x * y))"
| "num_times _ _ = NaN"

text \<open>Division by a constant that is not zero.\<close>

fun num_div :: "jsnum \<Rightarrow> rat \<Rightarrow> jsnum" where
  "num_div (Num x) k = Num (fl (x / k))"
| "num_div NaN k = NaN"

text \<open>
  \<^verbatim>\<open>Math.ceil\<close> and \<^verbatim>\<open>Math.round\<close> (the nearest integer, a tie going towards plus
  infinity) give their exact result, which is a double whenever the argument is one.
\<close>

fun Math_ceil :: "jsnum \<Rightarrow> jsnum" where
  "Math_ceil (Num x) = Num (of_int \<lceil>x\<rceil>)"
| "Math_ceil NaN = NaN"

fun Math_round :: "jsnum \<Rightarrow> jsnum" where
  "Math_round (Num x) = Num (of_int \<lfloor>x + 1 / 2\<rfloor>)"
| "Math_round NaN = NaN"

fun isFinite :: "jsnum \<Rightarrow> bool" where
  "isFinite (Num x) = True"
| "isFinite NaN = False"

fun num_less :: "jsnum \<Rightarrow> rat \<Rightarrow> bool" where
  "num_less (Num x) k = (x < k)"
| "num_less NaN k = False"

text \<open>
  A \<^verbatim>\<open>Date\<close> object holds a time value, a whole number of milliseconds of magnitude at
  most 8.64e15, or is an Invalid Date (time value NaN). \<^verbatim>\<open>new Date(text)\<close> belongs to the
  runtime, so the functions below take it as the parameter \<open>new_Date\<close>. The difference of
  two dates is the difference of their time values, as doubles.
\<close>

datatype jsdate = Invalid_Date | Date int

type_synonym date_parser = "jsstring \<Rightarrow> jsdate"

fun date_minus :: "jsdate \<Rightarrow> jsdate \<Rightarrow> jsnum" where
  "date_minus (Date a) (Date b) = Num (fl (of_int (a - b)))"
| "date_minus _ _ = NaN"

text \<open>
  \<^verbatim>\<open>trim\<close> removes the white space and line terminators of ECMAScript from both ends.
\<close>

definition is_space :: "nat \<Rightarrow> bool" where
  "is_space c \<longleftrightarrow>
     c \<in> set [9, 10, 11, 12, 13, 32, 160, 5760, 8192, 8193, 8194, 8195, 8196, 8197, 8198,
              8199, 8200, 8201, 8202, 8232, 8233, 8239, 8287, 12288, 65279]"

definition trim :: "jsstring \<Rightarrow> jsstring" where
  "trim s = rev (dropWhile is_space (rev (dropWhile is_space s)))"

section \<open>Settings\<close>

text \<open>
  An object used as a table is an association list of its own properties in insertion
  order (the runtime lists names that are array indices first; nothing below depends on
  the order). Reading \<^verbatim>\<open>table[key]\<close> finds the table's own property of that name or else,
  the table being an ordinary object, the member of \<^verbatim>\<open>Object.prototype\<close> of that name: a
  function, or for \<^verbatim>\<open>__proto__\<close> the prototype itself. Such a member is kept by its name.
  It is truthy, and as a number it is \<open>NaN\<close>.
\<close>

definition Object_prototype :: "jsstring list" where
  "Object_prototype =
     [str ''constructor'', str ''__defineGetter__'', str ''__defineSetter__'',
      str ''hasOwnProperty'', str ''__lookupGetter__'', str ''__lookupSetter__'',
      str ''isPrototypeOf'', str ''propertyIsEnumerable'', str ''toString'', str ''valueOf'',
      str ''__proto__'', str ''toLocaleString'']"

datatype 'a or_member = Value 'a | Prototype_member jsstring

definition property_of :: "(jsstring \<times> 'a) list \<Rightarrow> jsstring \<Rightarrow> 'a or_member option" where
  "property_of table key =
     (case map_of table key of
        Some v \<Rightarrow> Some (Value v)
      | None \<Rightarrow> if key \<in> set Object_prototype then Some (Prototype_member key) else None)"

fun to_number :: "rat or_member \<Rightarrow> jsnum" where
  "to_number (Value x) = Num x"
| "to_number (Prototype_member name) = NaN"

text \<open>
  The settings cached in memory (the \<^verbatim>\<open>let\<close> variables at the top of the script).
\<close>

record settings =
  phoneNumber :: jsstring
  vipCode :: jsstring
  vipGreeting :: jsstring
  useWhatsApp :: bool
  paymentMethods :: "jsstring list"
  carCategories :: "(jsstring \<times> rat) list"
  extras :: "(jsstring \<times> rat) list"
  depositPercent :: rat
  adminEmail :: jsstring

definition DEFAULTS :: settings where
  "DEFAULTS = \<lparr>
     phoneNumber = str ''+302101234567'',
     vipCode = str ''VIP2025'',
     vipGreeting = [922, 945, 955, 974, 962, 32, 942, 961, 952, 949, 962, 32, 86, 73, 80, 32,
                    949, 960, 953, 963, 954, 941, 960, 964, 951, 33],
     useWhatsApp = False,
     paymentMethods =
       [[928, 955, 951, 961, 969, 956, 942, 32, 963, 964, 951, 957, 32, 960, 945, 961, 945,
         955, 945, 946, 942],
        [922, 940, 961, 964, 945, 32, 40, 83, 116, 114, 105, 112, 101, 41],
        str ''PayPal'',
        [922, 945, 964, 940, 952, 949, 963, 951, 32, 963, 949, 32, 932, 961, 940, 960, 949,
         950, 945],
        str ''Apple Pay'',
        str ''Google Pay'',
        str ''Revolut'',
        str ''Viva Wallet'',
        str ''Crypto''],
     carCategories = [(str ''Economy'', 30), (str ''SUV'', 50), (str ''Luxury'', 90)],
     extras =
       [(str ''GPS'', 5),
        ([928, 945, 953, 948, 953, 954, 972, 32, 922, 940, 952, 953, 963, 956, 945], 6),
        ([928, 961, 972, 963, 952, 949, 964, 959, 962, 32, 927, 948, 951, 947, 972, 962], 7),
        ([928, 955, 942, 961, 951, 962, 32, 913, 963, 966, 940, 955, 949, 953, 945], 10)],
     depositPercent = 30,
     adminEmail = str ''info@miracars.example.com'' \<rparr>"

text \<open>
  The texts shown to the customer are named, not spelled out: no property below depends
  on their wording. \<open>PAYMENT_INSTRUCTIONS\<close> keeps its nine keys as strings, since a
  payment method is looked up by exact match.
\<close>

datatype instruction =
  Pay_on_pickup | Stripe_link | PayPal_link | Bank_IBAN | Apple_Pay_request
  | Google_Pay_link | Revolut_link | Viva_Wallet_link | Crypto_wallet | Generic_contact

definition PAYMENT_INSTRUCTIONS :: "(jsstring \<times> instruction) list" where
  "PAYMENT_INSTRUCTIONS =
     [([928, 955, 951, 961, 969, 956, 942, 32, 963, 964, 951, 957, 32, 960, 945, 961, 945,
        955, 945, 946, 942], Pay_on_pickup),
      ([922, 940, 961, 964, 945, 32, 40, 83, 116, 114, 105, 112, 101, 41], Stripe_link),
      (str ''PayPal'', PayPal_link),
      ([922, 945, 964, 940, 952, 949, 963, 951, 32, 963, 949, 32, 932, 961, 940, 960, 949,
        950, 945], Bank_IBAN),
      (str ''Apple Pay'', Apple_Pay_request),
      (str ''Google Pay'', Google_Pay_link),
      (str ''Revolut'', Revolut_link),
      (str ''Viva Wallet'', Viva_Wallet_link),
      (str ''Crypto'', Crypto_wallet)]"

section \<open>The price summary and the booking\<close>

text \<open>
  What the two functions read from the page: the value of each field, \<open>None\<close> when the
  element is not in the document, whether the price summary element exists, and the
  values of the checked boxes of the extras container in document order. The fields
  of the booking form are the elements of the same ids in the document.
\<close>

record page =
  pickupEl :: "jsstring option"
  dropoffEl :: "jsstring option"
  categoryEl :: "jsstring option"
  paymentEl :: "jsstring option"
  priceEl :: bool
  checkedExtras :: "jsstring list"
  nameEl :: "jsstring option"
  emailEl :: "jsstring option"
  phoneEl :: "jsstring option"
  notesEl :: "jsstring option"

record price_components =
  days :: jsnum
  basePerDay :: "rat or_member"
  baseTotal :: jsnum
  extrasTotal :: jsnum
  subTotal :: jsnum
  depositAmount :: jsnum
  totalAmount :: jsnum

text \<open>
  \<^verbatim>\<open>table[key] || 0\<close> on a table of prices: a price of 0 and a name that is not found give
  0, and a member of the prototype is truthy and is kept.
\<close>

definition price_or_0 :: "(jsstring \<times> rat) list \<Rightarrow> jsstring \<Rightarrow> rat or_member" where
  "price_or_0 table key = (case property_of table key of Some found \<Rightarrow> found | None \<Rightarrow> Value 0)"

text \<open>\<^verbatim>\<open>PAYMENT_INSTRUCTIONS[payment] || generic\<close>; each instruction is a text that is not empty.\<close>

definition instructions_for :: "jsstring \<Rightarrow> instruction or_member" where
  "instructions_for payment =
     (case property_of PAYMENT_INSTRUCTIONS payment of
        Some found \<Rightarrow> found
      | None \<Rightarrow> Value Generic_contact)"

text \<open>
  \<open>calculatePrice\<close> writes into the price summary element either the prompt to choose
  dates and a category, or the summary. The summary is kept as the values its lines are
  built from (the formatting with \<^verbatim>\<open>toFixed(2)\<close> is not modelled). The result is
  \<open>None\<close> when the element is missing and nothing is written.
\<close>

record summary =
  category :: jsstring
  selectedExtras :: "jsstring list"
  prices :: price_components
  payment :: "(jsstring \<times> instruction or_member) option"

datatype price_panel = Prompt | Summary summary

definition calculatePrice :: "date_parser \<Rightarrow> settings \<Rightarrow> page \<Rightarrow> price_panel option" where
  "calculatePrice new_Date cfg pg =
     (if \<not> priceEl pg then None
      else
        let pickup = (case pickupEl pg of
                        Some v \<Rightarrow> if v \<noteq> [] then Some (new_Date v) else None
                      | None \<Rightarrow> None);
            dropoff = (case dropoffEl pg of
                         Some v \<Rightarrow> if v \<noteq> [] then Some (new_Date v) else None
                       | None \<Rightarrow> None)
        in case pickup of
             None \<Rightarrow> Some Prompt
           | Some p \<Rightarrow>
              (case dropoff of
                 None \<Rightarrow> Some Prompt
               | Some d \<Rightarrow>
                  (case categoryEl pg of
                     None \<Rightarrow> Some Prompt
                   | Some c \<Rightarrow>
                      if c = [] then Some Prompt
                      else
                        let days0 = Math_ceil (num_div (date_minus d p) (1000 * 60 * 60 * 24));
                            days = (if \<not> isFinite days0 \<or> num_less days0 1 then Num 1
                                    else days0);
                            basePricePerDay = price_or_0 (carCategories cfg) c;
                            baseTotal = num_times (to_number basePricePerDay) days;
                            extrasTotal =
                              foldl (\<lambda>acc key. num_plus acc
                                       (num_times (to_number (price_or_0 (extras cfg) key)) days))
                                (Num 0) (checkedExtras pg);
                            subTotal = num_plus baseTotal extrasTotal;
                            depositAmount =
                              (if depositPercent cfg > 0
                               then num_div (Math_round (num_times
                                      (num_div (num_times subTotal (Num (depositPercent cfg))) 100)
                                      (Num 100))) 100
                               else Num 0);
                            total = num_div (Math_round (num_times subTotal (Num 100))) 100
                        in Some (Summary \<lparr>
                             category = c,
                             selectedExtras = checkedExtras pg,
                             prices = \<lparr> days = days, basePerDay = basePricePerDay,
                               baseTotal = baseTotal, extrasTotal = extrasTotal,
                               subTotal = subTotal, depositAmount = depositAmount,
                               totalAmount = total \<rparr>,
                             payment = (case paymentEl pg of
                                          None \<Rightarrow> None
                                        | Some m \<Rightarrow>
                                           if m = [] then None
                                           else Some (m, instructions_for m)) \<rparr>))))"

text \<open>
  \<open>handleBookingSubmit\<close> reads the form, computes the price components and composes the
  mail. The result is the values of the mail's lines; reading \<^verbatim>\<open>.value\<close> of a field
  that is missing from the form raises a \<^verbatim>\<open>TypeError\<close>. Resetting the form afterwards
  is not modelled.
\<close>

datatype js_error = TypeError

record booking =
  customerName :: jsstring
  customerEmail :: jsstring
  customerPhone :: jsstring
  bookedCategory :: jsstring
  bookedExtras :: "jsstring list"
  pickupText :: jsstring
  dropoffText :: jsstring
  bookedPrices :: price_components
  bookedPayment :: jsstring
  bookingNotes :: jsstring

definition handleBookingSubmit :: "date_parser \<Rightarrow> settings \<Rightarrow> page \<Rightarrow> js_error + booking" where
  "handleBookingSubmit new_Date cfg pg =
     (case nameEl pg of None \<Rightarrow> Inl TypeError | Some name \<Rightarrow>
      case emailEl pg of None \<Rightarrow> Inl TypeError | Some email \<Rightarrow>
      case phoneEl pg of None \<Rightarrow> Inl TypeError | Some phone \<Rightarrow>
      case pickupEl pg of None \<Rightarrow> Inl TypeError | Some pickup \<Rightarrow>
      case dropoffEl pg of None \<Rightarrow> Inl TypeError | Some dropoff \<Rightarrow>
      case categoryEl pg of None \<Rightarrow> Inl TypeError | Some c \<Rightarrow>
      case paymentEl pg of None \<Rightarrow> Inl TypeError | Some m \<Rightarrow>
      case notesEl pg of None \<Rightarrow> Inl TypeError | Some note \<Rightarrow>
        let selected = checkedExtras pg;
            startDate = (if pickup \<noteq> [] then Some (new_Date pickup) else None);
            endDate = (if dropoff \<noteq> [] then Some (new_Date dropoff) else None);
            days = (case startDate of
                      None \<Rightarrow> Num 1
                    | Some s \<Rightarrow>
                       (case endDate of
                          None \<Rightarrow> Num 1
                        | Some e \<Rightarrow>
                           let days0 = Math_ceil (num_div (date_minus e s) (1000 * 60 * 60 * 24))
                           in if \<not> isFinite days0 \<or> num_less days0 1 then Num 1 else days0));
            basePerDay = price_or_0 (carCategories cfg) c;
            baseTotal = num_times (to_number basePerDay) days;
            extrasTotal =
              foldl (\<lambda>acc ex. num_plus acc
                       (num_times (to_number (price_or_0 (extras cfg) ex)) days))
                (Num 0) selected;
            subtotal = num_plus baseTotal extrasTotal;
            depositAmount =
              (if depositPercent cfg > 0
               then num_div (Math_round (num_times
                      (num_div (num_times subtotal (Num (depositPercent cfg))) 100)
                      (Num 100))) 100
               else Num 0);
            total = num_div (Math_round (num_times subtotal (Num 100))) 100
        in Inr \<lparr>
             customerName = trim name,
             customerEmail = trim email,
             customerPhone = trim phone,
             bookedCategory = c,
             bookedExtras = selected,
             pickupText = pickup,
             dropoffText = dropoff,
             bookedPrices = \<lparr> days = days, basePerDay = basePerDay, baseTotal = baseTotal,
               extrasTotal = extrasTotal, subTotal = subtotal, depositAmount = depositAmount,
               totalAmount = total \<rparr>,
             bookedPayment = m,
             bookingNotes = trim note \<rparr>)"

section \<open>The configuration store\<close>

text \<open>
  \<^verbatim>\<open>localStorage\<close> maps a key to a text; \<^verbatim>\<open>getItem\<close> gives \<^verbatim>\<open>null\<close> (here \<open>None\<close>) for a
  key that is not there.
\<close>

type_synonym storage = "jsstring \<rightharpoonup> jsstring"

text \<open>
  The values a setting can hold, as \<^verbatim>\<open>JSON.parse\<close> builds them, and a member of
  \<^verbatim>\<open>Object.prototype\<close>, kept by its name.
\<close>

datatype jsvalue =
  Undefined | Null | Bool bool | Number rat | String jsstring
  | Array "jsvalue list" | Object "(jsstring \<times> jsvalue) list" | Inherited jsstring

text \<open>
  The functions of the runtime that the settings code calls are parameters of the model:
  \<open>JSON_stringify v\<close> is the text that \<^verbatim>\<open>setItem(key, JSON.stringify(v))\<close> stores,
  \<open>JSON_parse\<close> gives \<open>None\<close> where \<^verbatim>\<open>JSON.parse\<close> throws a \<^verbatim>\<open>SyntaxError\<close>, \<open>parseFloat\<close>
  gives \<open>NaN\<close> where \<^verbatim>\<open>parseFloat\<close> does, and \<open>toLowerCase\<close> is the Unicode lower-casing
  of a string.
\<close>

record runtime =
  JSON_stringify :: "jsvalue \<Rightarrow> jsstring"
  JSON_parse :: "jsstring \<Rightarrow> jsvalue option"
  parseFloat :: "jsstring \<Rightarrow> jsnum"
  toLowerCase :: "jsstring \<Rightarrow> jsstring"

definition price_table_value :: "(jsstring \<times> rat) list \<Rightarrow> jsvalue" where
  "price_table_value table = Object (map (\<lambda>(name, price). (name, Number price)) table)"

text \<open>The object \<^verbatim>\<open>DEFAULTS\<close> as a value, and \<^verbatim>\<open>DEFAULTS[key]\<close>.\<close>

definition DEFAULTS_object :: "(jsstring \<times> jsvalue) list" where
  "DEFAULTS_object =
     [(str ''phoneNumber'', String (phoneNumber DEFAULTS)),
      (str ''vipCode'', String (vipCode DEFAULTS)),
      (str ''vipGreeting'', String (vipGreeting DEFAULTS)),
      (str ''useWhatsApp'', Bool (useWhatsApp DEFAULTS)),
      (str ''paymentMethods'', Array (map String (paymentMethods DEFAULTS))),
      (str ''carCategories'', price_table_value (carCategories DEFAULTS)),
      (str ''extras'', price_table_value (extras DEFAULTS)),
      (str ''depositPercent'', Number (depositPercent DEFAULTS)),
      (str ''adminEmail'', String (adminEmail DEFAULTS))]"

definition DEFAULTS_at :: "jsstring \<Rightarrow> jsvalue" where
  "DEFAULTS_at key =
     (case property_of DEFAULTS_object key of
        Some (Value v) \<Rightarrow> v
      | Some (Prototype_member name) \<Rightarrow> Inherited name
      | None \<Rightarrow> Undefined)"

definition loadSetting :: "runtime \<Rightarrow> storage \<Rightarrow> jsstring \<Rightarrow> jsvalue" where
  "loadSetting rt store key =
     (case store key of
        None \<Rightarrow> DEFAULTS_at key
      | Some stored \<Rightarrow>
         if stored \<noteq> [] then
           (case JSON_parse rt stored of Some v \<Rightarrow> v | None \<Rightarrow> String stored)
         else DEFAULTS_at key)"

definition saveSetting :: "runtime \<Rightarrow> storage \<Rightarrow> jsstring \<Rightarrow> jsvalue \<Rightarrow> storage" where
  "saveSetting rt store key v = store(key \<mapsto> JSON_stringify rt v)"

section \<open>Admin authentication\<close>

definition getAdminPassword :: "storage \<Rightarrow> jsstring option" where
  "getAdminPassword store =
     (case store (str ''adminPassword'') of
        None \<Rightarrow> None
      | Some pwd \<Rightarrow> if pwd \<noteq> [] then Some pwd else None)"

definition setAdminPassword :: "storage \<Rightarrow> jsstring \<Rightarrow> storage" where
  "setAdminPassword store pwd = store(str ''adminPassword'' \<mapsto> pwd)"

definition isAdminLoggedIn :: "storage \<Rightarrow> bool" where
  "isAdminLoggedIn store \<longleftrightarrow> store (str ''isAdmin'') = Some (str ''true'')"

definition setAdminLoggedIn :: "storage \<Rightarrow> bool \<Rightarrow> storage" where
  "setAdminLoggedIn store flag =
     (if flag then store(str ''isAdmin'' \<mapsto> str ''true'') else store(str ''isAdmin'' := None))"

text \<open>
  \<open>renderLoginContent\<close> puts one of two forms into the login container (none when the
  container is missing). The three handlers it installs are named after their form; each
  returns the store and the notice it shows. Updating the navigation and closing the
  modal are not modelled.
\<close>

datatype login_form = Setup_form | Login_form

datatype notice =
  Password_too_short | Password_saved | Login_succeeded | Wrong_password
  | Biometric_approval | Signed_out

definition renderLoginContent :: "bool \<Rightarrow> storage \<Rightarrow> login_form option" where
  "renderLoginContent container store =
     (if \<not> container then None
      else if getAdminPassword store = None then Some Setup_form
      else Some Login_form)"

definition setup_form_submit :: "storage \<Rightarrow> jsstring \<Rightarrow> storage \<times> notice" where
  "setup_form_submit store new_password =
     (let newPwd = trim new_password
      in if length newPwd < 4 then (store, Password_too_short)
         else (setAdminLoggedIn (setAdminPassword store newPwd) True, Password_saved))"

definition login_form_submit :: "storage \<Rightarrow> jsstring \<Rightarrow> storage \<times> notice" where
  "login_form_submit store entered =
     (let stored = getAdminPassword store
      in if Some entered = stored then (setAdminLoggedIn store True, Login_succeeded)
         else (store, Wrong_password))"

definition bio_login_click :: "storage \<Rightarrow> storage \<times> notice" where
  "bio_login_click store = (setAdminLoggedIn store True, Biometric_approval)"

text \<open>
  \<open>toggleAuth\<close> signs out when logged in and opens the login modal otherwise; the second
  component is the form that the modal then shows.
\<close>

definition toggleAuth :: "bool \<Rightarrow> storage \<Rightarrow> storage \<times> notice option \<times> login_form option" where
  "toggleAuth container store =
     (if isAdminLoggedIn store then (setAdminLoggedIn store False, Some Signed_out, None)
      else (store, None, renderLoginContent container store))"

text \<open>
  The three states of the specification, read off the store in the order in which
  \<open>toggleAuth\<close> and \<open>renderLoginContent\<close> test it.
\<close>

datatype auth_state = NoPasswordSet | LoggedOut | LoggedIn

definition auth_state_of :: "storage \<Rightarrow> auth_state" where
  "auth_state_of store =
     (if isAdminLoggedIn store then LoggedIn
      else if getAdminPassword store = None then NoPasswordSet
      else LoggedOut)"

section \<open>Saving the settings\<close>

text \<open>
  The state that \<open>saveSettings\<close> works on: the cached settings and the store. Its inputs
  are the values of the three text fields of the panel (\<open>None\<close> when the element is
  missing) and the answers to the six prompts (\<open>None\<close> when the prompt is cancelled).
\<close>

record app_state = settings +
  localStorage :: storage

record settings_form =
  phoneInput :: "jsstring option"
  vipInput :: "jsstring option"
  greetingInput :: "jsstring option"
  pay :: "jsstring option"
  catInput :: "jsstring option"
  extrasInput :: "jsstring option"
  depInput :: "jsstring option"
  emailPrompt :: "jsstring option"
  waInput :: "jsstring option"

text \<open>\<^verbatim>\<open>text || fallback\<close> on strings, and \<^verbatim>\<open>text.split(separator)\<close> for a one-character separator.\<close>

definition or_default :: "jsstring \<Rightarrow> jsstring \<Rightarrow> jsstring" where
  "or_default text fallback = (if text \<noteq> [] then text else fallback)"

fun split_on :: "nat \<Rightarrow> jsstring \<Rightarrow> jsstring list" where
  "split_on sep [] = [[]]"
| "split_on sep (c # cs) =
     (if c = sep then [] # split_on sep cs
      else (case split_on sep cs of
              [] \<Rightarrow> [[c]]
            | part # parts \<Rightarrow> (c # part) # parts))"

text \<open>
  The loop over the comma-separated \<^verbatim>\<open>name:price\<close> pairs, which the source writes out
  once for the categories and once for the extras: a pair is entered into the new table
  when its name and its price are not empty and the price parses to a number. The
  assignment \<^verbatim>\<open>table[name] = price\<close> creates or overwrites the table's own property, except
  for the name \<^verbatim>\<open>__proto__\<close>: there it calls the setter of the prototype, which ignores a
  number, and the table stays as it is.
\<close>

definition add_price_pair ::
  "runtime \<Rightarrow> (jsstring \<times> rat) list \<Rightarrow> jsstring \<Rightarrow> (jsstring \<times> rat) list" where
  "add_price_pair rt table pair =
     (case map trim (split_on 58 pair) of
        name # price # rest \<Rightarrow>
          if name \<noteq> [] \<and> price \<noteq> [] then
            (case parseFloat rt price of
               NaN \<Rightarrow> table
             | Num x \<Rightarrow> if name = str ''__proto__'' then table else AList.update name x table)
          else table
      | _ \<Rightarrow> table)"

definition parse_price_pairs :: "runtime \<Rightarrow> jsstring \<Rightarrow> (jsstring \<times> rat) list" where
  "parse_price_pairs rt input = foldl (add_price_pair rt) [] (split_on 44 input)"

definition edit_paymentMethods :: "runtime \<Rightarrow> jsstring option \<Rightarrow> app_state \<Rightarrow> app_state" where
  "edit_paymentMethods rt answer st =
     (case answer of
        None \<Rightarrow> st
      | Some text \<Rightarrow>
         if text = [] then st
         else
           let methods = filter (\<lambda>m. m \<noteq> []) (map trim (split_on 44 text))
           in st \<lparr> paymentMethods := methods,
                   localStorage := saveSetting rt (localStorage st) (str ''paymentMethods'')
                     (Array (map String methods)) \<rparr>)"

definition edit_carCategories :: "runtime \<Rightarrow> jsstring option \<Rightarrow> app_state \<Rightarrow> app_state" where
  "edit_carCategories rt answer st =
     (case answer of
        None \<Rightarrow> st
      | Some text \<Rightarrow>
         if text = [] then st
         else
           let newCats = parse_price_pairs rt text
           in if newCats \<noteq> [] then
                st \<lparr> carCategories := newCats,
                     localStorage := saveSetting rt (localStorage st) (str ''carCategories'')
                       (price_table_value newCats) \<rparr>
              else st)"

definition edit_extras :: "runtime \<Rightarrow> jsstring option \<Rightarrow> app_state \<Rightarrow> app_state" where
  "edit_extras rt answer st =
     (case answer of
        None \<Rightarrow> st
      | Some text \<Rightarrow>
         if text = [] then st
         else
           let newExtras = parse_price_pairs rt text
           in if newExtras \<noteq> [] then
                st \<lparr> extras := newExtras,
                     localStorage := saveSetting rt (localStorage st) (str ''extras'')
                       (price_table_value newExtras) \<rparr>
              else st)"

definition edit_depositPercent :: "runtime \<Rightarrow> jsstring option \<Rightarrow> app_state \<Rightarrow> app_state" where
  "edit_depositPercent rt answer st =
     (case answer of
        None \<Rightarrow> st
      | Some text \<Rightarrow>
         (case parseFloat rt text of
            NaN \<Rightarrow> st
          | Num parsed \<Rightarrow>
             if parsed \<ge> 0 \<and> parsed \<le> 100 then
               st \<lparr> depositPercent := parsed,
                    localStorage := saveSetting rt (localStorage st) (str ''depositPercent'')
                      (Number parsed) \<rparr>
             else st))"

definition edit_adminEmail :: "runtime \<Rightarrow> jsstring option \<Rightarrow> app_state \<Rightarrow> app_state" where
  "edit_adminEmail rt answer st =
     (case answer of
        None \<Rightarrow> st
      | Some text \<Rightarrow>
         if text = [] then st
         else st \<lparr> adminEmail := trim text,
                   localStorage := saveSetting rt (localStorage st) (str ''adminEmail'')
                     (String (trim text)) \<rparr>)"

definition persist_basic_settings :: "runtime \<Rightarrow> app_state \<Rightarrow> app_state" where
  "persist_basic_settings rt st =
     st \<lparr> localStorage :=
       saveSetting rt
         (saveSetting rt
           (saveSetting rt (localStorage st) (str ''phoneNumber'') (String (phoneNumber st)))
           (str ''vipCode'') (String (vipCode st)))
         (str ''vipGreeting'') (String (vipGreeting st)) \<rparr>"

definition edit_useWhatsApp :: "runtime \<Rightarrow> jsstring option \<Rightarrow> app_state \<Rightarrow> app_state" where
  "edit_useWhatsApp rt answer st =
     (let st' = (case answer of
                   None \<Rightarrow> st
                 | Some text \<Rightarrow>
                    let lowered = trim (toLowerCase rt text)
                    in st \<lparr> useWhatsApp := (lowered = [957, 945, 953] \<or> lowered = str ''yes'') \<rparr>)
      in st' \<lparr> localStorage :=
           saveSetting rt (localStorage st') (str ''useWhatsApp'') (Bool (useWhatsApp st')) \<rparr>)"

text \<open>
  \<open>saveSettings\<close> returns the state it leaves behind, and the \<^verbatim>\<open>TypeError\<close> with which it
  stops when one of the three text fields is missing. Refreshing the page afterwards is
  not modelled.
\<close>

definition saveSettings ::
  "runtime \<Rightarrow> app_state \<Rightarrow> settings_form \<Rightarrow> app_state \<times> js_error option" where
  "saveSettings rt st inp =
     (case phoneInput inp of
        None \<Rightarrow> (st, Some TypeError)
      | Some phone \<Rightarrow>
         let st1 = st \<lparr> phoneNumber := or_default (trim phone) (phoneNumber DEFAULTS) \<rparr>
         in case vipInput inp of
              None \<Rightarrow> (st1, Some TypeError)
            | Some code \<Rightarrow>
               let st2 = st1 \<lparr> vipCode := or_default (trim code) (vipCode DEFAULTS) \<rparr>
               in case greetingInput inp of
                    None \<Rightarrow> (st2, Some TypeError)
                  | Some greeting \<Rightarrow>
                     let st3 = st2 \<lparr> vipGreeting :=
                                   or_default (trim greeting) (vipGreeting DEFAULTS) \<rparr>;
                         st4 = edit_paymentMethods rt (pay inp) st3;
                         st5 = edit_carCategories rt (catInput inp) st4;
                         st6 = edit_extras rt (extrasInput inp) st5;
                         st7 = edit_depositPercent rt (depInput inp) st6;
                         st8 = edit_adminEmail rt (emailPrompt inp) st7;
                         st9 = persist_basic_settings rt st8
                     in (edit_useWhatsApp rt (waInput inp) st9, None))"

text \<open>
  The state of a page loaded over an empty store, and the state after a series of
  calls of \<open>saveSettings\<close>.
\<close>

definition fresh_state :: app_state where
  "fresh_state = settings.extend DEFAULTS \<lparr> localStorage = Map.empty \<rparr>"

definition saveSettings_all :: "runtime \<Rightarrow> app_state \<Rightarrow> settings_form list \<Rightarrow> app_state" where
  "saveSettings_all rt st inps = foldl (\<lambda>s inp. fst (saveSettings rt s inp)) st inps"

section \<open>The words of the specification\<close>

text \<open>
  The day count in the words of the specification: the ceiling of the difference in
  whole days when both dates are valid and the dropoff is after the pickup, and 1
  otherwise.
\<close>

definition spec_dayCount :: "jsdate \<Rightarrow> jsdate \<Rightarrow> rat" where
  "spec_dayCount pickup dropoff =
     (case pickup of
        Invalid_Date \<Rightarrow> 1
      | Date p \<Rightarrow>
         (case dropoff of
            Invalid_Date \<Rightarrow> 1
          | Date d \<Rightarrow> if p < d then of_int \<lceil>of_int (d - p) / (86400000 :: rat)\<rceil> else 1))"

text \<open>
  The bound within which the difference of two time values is a double: the dropoff is at
  most \<open>2 ^ 53\<close> milliseconds (some 285 000 years) after the pickup.
\<close>

definition span_at_most_2_53 :: "jsdate \<Rightarrow> jsdate \<Rightarrow> bool" where
  "span_at_most_2_53 pickup dropoff =
     (case pickup of
        Invalid_Date \<Rightarrow> True
      | Date p \<Rightarrow> (case dropoff of Invalid_Date \<Rightarrow> True | Date d \<Rightarrow> d - p \<le> 2 ^ 53))"

text \<open>
  Rounding to two decimals, half up at the cents boundary, said without a formula: \<open>r\<close>
  is a whole number of cents, at most half a cent above \<open>x\<close> and less than half a cent
  below it, so that a tie goes up.
\<close>

definition half_up_cents :: "rat \<Rightarrow> rat \<Rightarrow> bool" where
  "half_up_cents x r \<longleftrightarrow> of_int \<lfloor>r * 100\<rfloor> = r * 100 \<and> x - 1 / 200 < r \<and> r \<le> x + 1 / 200"

text \<open>
  A valid pair in the words of the claim: it has a name and a price, neither empty, and
  the price parses as a number.
\<close>

definition valid_pair :: "runtime \<Rightarrow> jsstring \<Rightarrow> bool" where
  "valid_pair rt pair \<longleftrightarrow>
     (case map trim (split_on 58 pair) of
        name # price # rest \<Rightarrow> name \<noteq> [] \<and> price \<noteq> [] \<and> parseFloat rt price \<noteq> NaN
      | _ \<Rightarrow> False)"

text \<open>Clamping to the range from 0 to 100, in the usual sense of the word.\<close>

definition clamp_0_100 :: "rat \<Rightarrow> rat" where
  "clamp_0_100 x = max 0 (min 100 x)"

section \<open>Examples\<close>

text \<open>
  What the runtime's \<^verbatim>\<open>new Date\<close> gives on the texts used in the examples: the three ISO
  dates are midnight UTC of 1, 2 and 4 June 2025; the two texts with a year of six
  digits are the first instant of the year 198030 before the common era and one
  millisecond after the start of the year 201970, 200 000 years before and after
  1 January 1970; a text that is no date gives an Invalid Date.
\<close>

definition example_Date :: date_parser where
  "example_Date s =
     (if s = str ''2025-06-01'' then Date 1748736000000
      else if s = str ''2025-06-02'' then Date 1748822400000
      else if s = str ''2025-06-04'' then Date 1748995200000
      else if s = str ''-198030-01-01T00:00:00.000Z'' then Date (- 6311390400000000)
      else if s = str ''+201970-01-01T00:00:00.001Z'' then Date 6311390400000001
      else Invalid_Date)"

definition example_page :: page where
  "example_page = \<lparr>
     pickupEl = Some (str ''2025-06-01''),
     dropoffEl = Some (str ''2025-06-04''),
     categoryEl = Some (str ''SUV''),
     paymentEl = Some (str ''PayPal''),
     priceEl = True,
     checkedExtras = [str ''GPS''],
     nameEl = Some (str ''Ann''),
     emailEl = Some (str ''ann@example.com''),
     phoneEl = Some (str ''123''),
     notesEl = Some [] \<rparr>"

text \<open>
  A page whose category, second extra and payment method are in none of the tables but
  are names of \<^verbatim>\<open>Object.prototype\<close>, and a page whose pickup text is no date.
\<close>

definition inherited_names_page :: page where
  "inherited_names_page = example_page \<lparr>
     categoryEl := Some (str ''constructor''),
     checkedExtras := [str ''GPS'', str ''toString''],
     paymentEl := Some (str ''valueOf'') \<rparr>"

definition unparseable_page :: page where
  "unparseable_page = example_page \<lparr> pickupEl := Some (str ''soon'') \<rparr>"

text \<open>
  A page whose dates are 400 000 years and one millisecond apart, which is 146097000
  days and one millisecond.
\<close>

definition far_apart_page :: page where
  "far_apart_page = example_page \<lparr>
     pickupEl := Some (str ''-198030-01-01T00:00:00.000Z''),
     dropoffEl := Some (str ''+201970-01-01T00:00:00.001Z'') \<rparr>"

text \<open>
  Settings with one category of 111 a day and a deposit of 7.5 percent, as the admin
  can enter them, and a page that asks for that category for one day, without extras.
\<close>

definition van_settings :: settings where
  "van_settings = DEFAULTS \<lparr> carCategories := [(str ''Van'', 111)], depositPercent := 15 / 2 \<rparr>"

definition van_page :: page where
  "van_page = example_page \<lparr>
     dropoffEl := Some (str ''2025-06-02''),
     categoryEl := Some (str ''Van''),
     checkedExtras := [] \<rparr>"


text \<open>A store in which the password \<^verbatim>\<open>abcd\<close> has been set and nobody is logged in.\<close>

definition logged_out_store :: storage where
  "logged_out_store = [str ''adminPassword'' \<mapsto> str ''abcd'']"

text \<open>
  Stand-ins for the runtime in the examples. Each agrees with the runtime on the inputs
  on which an example evaluates it: \<^verbatim>\<open>JSON.stringify\<close> of a boolean and of \<^verbatim>\<open>null\<close>;
  \<^verbatim>\<open>JSON.parse\<close> of the three literals, with a \<^verbatim>\<open>SyntaxError\<close> on the empty text and on a
  word such as \<^verbatim>\<open>hello\<close>; \<^verbatim>\<open>parseFloat\<close> of three numerals, with \<^verbatim>\<open>NaN\<close> on the empty
  text and on a word; lower-casing of a text of ASCII characters. On other inputs
  their answers are not the runtime's. Where an example stores another value, the stored
  text is left as \<open>JSON_stringify example_runtime v\<close> and no example depends on it.
\<close>

definition example_JSON_stringify :: "jsvalue \<Rightarrow> jsstring" where
  "example_JSON_stringify v =
     (if v = Bool True then str ''true'' else if v = Bool False then str ''false''
      else str ''null'')"

definition example_JSON_parse :: "jsstring \<Rightarrow> jsvalue option" where
  "example_JSON_parse text =
     (if text = str ''true'' then Some (Bool True)
      else if text = str ''false'' then Some (Bool False)
      else if text = str ''null'' then Some Null
      else None)"

definition example_parseFloat :: "jsstring \<Rightarrow> jsnum" where
  "example_parseFloat text =
     (if text = str ''25'' then Num 25
      else if text = str ''40'' then Num 40
      else if text = str ''150'' then Num 150
      else NaN)"

definition example_toLowerCase :: "jsstring \<Rightarrow> jsstring" where
  "example_toLowerCase text = map (\<lambda>c. if 65 \<le> c \<and> c \<le> 90 then c + 32 else c) text"

definition example_runtime :: runtime where
  "example_runtime = \<lparr>
     JSON_stringify = example_JSON_stringify,
     JSON_parse = example_JSON_parse,
     parseFloat = example_parseFloat,
     toLowerCase = example_toLowerCase \<rparr>"

text \<open>
  A state in which the admin has set a phone number of their own and chosen WhatsApp, and
  a settings form in which the phone field is left empty and every prompt is cancelled
  or answered with the empty text (the chat-channel prompt with the empty text).
\<close>

definition customised_state :: app_state where
  "customised_state = fresh_state \<lparr> phoneNumber := str ''+306900000000'', useWhatsApp := True \<rparr>"

definition empty_form :: settings_form where
  "empty_form = \<lparr>
     phoneInput = Some [],
     vipInput = Some (str ''VIP2025''),
     greetingInput = Some (str ''Welcome''),
     pay = None,
     catInput = Some [],
     extrasInput = None,
     depInput = Some [],
     emailPrompt = None,
     waInput = Some [] \<rparr>"

text \<open>
  A form that asks for a deposit of 25 percent and new categories, one that asks for a
  deposit of 150 percent, and one whose categories and extras hold no valid pair.
\<close>

definition deposit_25_form :: settings_form where
  "deposit_25_form = empty_form \<lparr>
     catInput := Some (str ''Van:40, Bus''), depInput := Some (str ''25''), waInput := None \<rparr>"

definition deposit_150_form :: settings_form where
  "deposit_150_form = empty_form \<lparr> depInput := Some (str ''150'') \<rparr>"

definition no_valid_pair_form :: settings_form where
  "no_valid_pair_form = empty_form \<lparr>
     catInput := Some (str ''Van:cheap, :40, Bus''), extrasInput := Some (str '':, x'') \<rparr>"

section \<open>Rounding to the nearest double\<close>

lemma ilog2_bounds:
  assumes "0 < x"
  shows "2 powi ilog2 x \<le> x" and "x < 2 powi (ilog2 x + 1)"
proof -
  have "2 powi ilog2 x \<le> x \<and> x < 2 powi (ilog2 x + 1)"
  proof (cases "1 \<le> x")
    case True
    define n where "n = \<lfloor>x\<rfloor>"
    have n: "1 \<le> n" "of_int n \<le> x" "x < of_int n + 1" "x < of_int (n + 1)"
      using True floor_correct [of x] by (simp_all add: n_def le_floor_iff)
    define b where "b = bitlen n"
    from n(1) have bb: "2 ^ nat (b - 1) \<le> n" "n < 2 ^ nat b"
      using bitlen_bounds [of n] by (simp_all add: b_def)
    have b1: "1 \<le> b" using n(1) bitlen_eq_zero_iff [of n] bitlen_nonneg [of n] by (simp add: b_def)
    have il: "ilog2 x = b - 1" using True by (simp add: ilog2_def b_def n_def)
    have "(2::rat) powi (b - 1) = 2 ^ nat (b - 1)" using b1 by (simp add: power_int_def)
    also have "\<dots> = of_int (2 ^ nat (b - 1))" by simp
    also have "\<dots> \<le> of_int n" using bb(1) by (simp only: of_int_le_iff)
    finally have lo: "2 powi (b - 1) \<le> x" using n(2) by simp
    have "n + 1 \<le> 2 ^ nat b" using bb(2) by simp
    then have "(of_int (n + 1) :: rat) \<le> of_int (2 ^ nat b)" by (simp only: of_int_le_iff)
    also have "\<dots> = 2 powi b" using b1 by (simp add: power_int_def)
    finally have "x < 2 powi b" using n(4) by simp
    with lo il show ?thesis by simp
  next
    case False
    define y where "y = 1 / x"
    have y: "1 < y" "x = 1 / y" "0 < y" using False assms by (simp_all add: y_def)
    define m where "m = \<lceil>y\<rceil> - 1"
    have m: "1 \<le> m" "of_int m < y" "y \<le> of_int (m + 1)"
      using y(1) ceiling_correct [of y] by (simp_all add: m_def less_ceiling_iff)
    define b where "b = bitlen m"
    from m(1) have bb: "2 ^ nat (b - 1) \<le> m" "m < 2 ^ nat b"
      using bitlen_bounds [of m] by (simp_all add: b_def)
    have b1: "1 \<le> b" using m(1) bitlen_eq_zero_iff [of m] bitlen_nonneg [of m] by (simp add: b_def)
    have il: "ilog2 x = - b" using False by (simp add: ilog2_def b_def m_def y_def)
    have "m + 1 \<le> 2 ^ nat b" using bb(2) by simp
    then have "(of_int (m + 1) :: rat) \<le> of_int (2 ^ nat b)" by (simp only: of_int_le_iff)
    also have "\<dots> = 2 powi b" using b1 by (simp add: power_int_def)
    finally have yb: "y \<le> 2 powi b" using m(3) by simp
    have pb: "(0::rat) < 2 powi b" by simp
    have "1 / 2 powi b \<le> 1 / y" using yb y(3) by (intro frac_le) simp_all
    then have lo: "2 powi (- b) \<le> x"
      using y(2) by (simp add: power_int_minus_divide)
    have "(2::rat) powi (b - 1) = 2 ^ nat (b - 1)" using b1 by (simp add: power_int_def)
    also have "\<dots> = of_int (2 ^ nat (b - 1))" by simp
    also have "\<dots> \<le> of_int m" using bb(1) by (simp only: of_int_le_iff)
    finally have "2 powi (b - 1) < y" using m(2) by simp
    moreover have "(0::rat) < 2 powi (b - 1)" by simp
    ultimately have "1 / y < 1 / 2 powi (b - 1)" by (intro frac_less2) simp_all
    then have "x < 1 / 2 powi (b - 1)" using y(2) by simp
    also have "\<dots> = 2 powi (- b + 1)" by (simp add: power_int_minus_divide [symmetric])
    finally show ?thesis using lo il by simp
  qed
  then show "2 powi ilog2 x \<le> x" and "x < 2 powi (ilog2 x + 1)" by simp_all
qed


lemma ilog2_eqI:
  assumes "2 powi e \<le> x" "x < 2 powi (e + 1)"
  shows "ilog2 x = e"
proof -
  have "(0::rat) < 2 powi e" by simp
  with assms(1) have pos: "0 < x" by linarith
  note b = ilog2_bounds [OF pos]
  have "ilog2 x < e + 1"
  proof (rule ccontr)
    assume "\<not> ilog2 x < e + 1"
    then have "(2::rat) powi (e + 1) \<le> 2 powi ilog2 x" by (intro power_int_increasing) simp_all
    with b(1) assms(2) show False by linarith
  qed
  moreover have "e < ilog2 x + 1"
  proof (rule ccontr)
    assume "\<not> e < ilog2 x + 1"
    then have "(2::rat) powi (ilog2 x + 1) \<le> 2 powi e" by (intro power_int_increasing) simp_all
    with b(2) assms(1) show False by linarith
  qed
  ultimately show ?thesis by linarith
qed

lemma round_half_even_of_int: "round_half_even (of_int n) = n"
  by (simp add: round_half_even_def)

lemma round_half_even_cases:
  "round_half_even y = \<lfloor>y\<rfloor> \<and> y - of_int \<lfloor>y\<rfloor> \<le> 1 / 2
   \<or> round_half_even y = \<lfloor>y\<rfloor> + 1 \<and> 1 / 2 \<le> y - of_int \<lfloor>y\<rfloor>"
  unfolding round_half_even_def Let_def by (simp add: not_less)

lemma round_half_even_le:
  assumes "y \<le> of_int n"
  shows "round_half_even y \<le> n"
proof -
  have f: "\<lfloor>y\<rfloor> \<le> n" using assms by (simp add: floor_le_iff)
  have "\<lfloor>y\<rfloor> + 1 \<le> n" if "1 / 2 \<le> y - of_int \<lfloor>y\<rfloor>"
  proof -
    have "y \<noteq> of_int n" using that by auto
    with assms have "y < of_int n" by simp
    then have "\<lfloor>y\<rfloor> < n" by (simp add: floor_less_iff)
    then show ?thesis by simp
  qed
  with f round_half_even_cases [of y] show ?thesis by auto
qed

lemma round_half_even_ge:
  assumes "of_int n \<le> y"
  shows "n \<le> round_half_even y"
proof -
  have "n \<le> \<lfloor>y\<rfloor>" using assms by (simp add: le_floor_iff)
  with round_half_even_cases [of y] show ?thesis by auto
qed

lemma round_half_even_above_half:
  assumes "of_int n + 1 / 2 < y"
  shows "n + 1 \<le> round_half_even y"
proof -
  have n: "n \<le> \<lfloor>y\<rfloor>" using assms by (simp add: le_floor_iff)
  have "n + 1 \<le> \<lfloor>y\<rfloor>" if "y - of_int \<lfloor>y\<rfloor> \<le> 1 / 2"
  proof (rule ccontr)
    assume "\<not> n + 1 \<le> \<lfloor>y\<rfloor>"
    with n have "\<lfloor>y\<rfloor> = n" by simp
    with that assms show False by simp
  qed
  with n round_half_even_cases [of y] show ?thesis by auto
qed

lemma fl_eqI:
  assumes "2 powi e \<le> \<bar>x\<bar>" "\<bar>x\<bar> < 2 powi (e + 1)" "- 1022 \<le> e"
  shows "fl x = of_int (round_half_even (x / 2 powi (e - 52))) * 2 powi (e - 52)"
proof -
  have "(0::rat) < 2 powi e" by simp
  with assms(1) have "0 < \<bar>x\<bar>" by linarith
  then have "x \<noteq> 0" by simp
  moreover have "ilog2 \<bar>x\<bar> = e" using assms(1,2) by (rule ilog2_eqI)
  ultimately show ?thesis using assms(3) by (simp add: fl_def Let_def max_def)
qed

lemma fl_nonpos: "x \<le> 0 \<Longrightarrow> fl x \<le> 0"
proof -
  assume x: "x \<le> 0"
  have "of_int (round_half_even (x / 2 powi k)) * (2::rat) powi k \<le> 0" for k
  proof -
    have q: "(0::rat) < 2 powi k" by simp
    then have "x / 2 powi k \<le> of_int 0" using x by (simp add: divide_le_0_iff)
    then have "round_half_even (x / 2 powi k) \<le> 0" by (rule round_half_even_le)
    then have "(of_int (round_half_even (x / 2 powi k)) :: rat) \<le> 0" by simp
    then show ?thesis using q by (simp add: mult_le_0_iff)
  qed
  then show ?thesis by (simp add: fl_def Let_def)
qed

lemma fl_nonneg: "0 \<le> x \<Longrightarrow> 0 \<le> fl x"
proof -
  assume x: "0 \<le> x"
  have "0 \<le> of_int (round_half_even (x / 2 powi k)) * (2::rat) powi k" for k
  proof -
    have q: "(0::rat) < 2 powi k" by simp
    then have "of_int 0 \<le> x / 2 powi k" using x by simp
    then have "0 \<le> round_half_even (x / 2 powi k)" by (rule round_half_even_ge)
    then have "(0::rat) \<le> of_int (round_half_even (x / 2 powi k))" by simp
    then show ?thesis using q by simp
  qed
  then show ?thesis by (simp add: fl_def Let_def)
qed

text \<open>A number with a significand of at most 53 bits is not changed.\<close>

lemma fl_representable:
  assumes "\<bar>n\<bar> < 2 ^ 53" "- 1074 \<le> k"
  shows "fl (of_int n * 2 powi k) = of_int n * 2 powi k"
proof (cases "n = 0")
  case True
  then show ?thesis by (simp add: fl_def)
next
  case False
  define x :: rat where "x = of_int n * 2 powi k"
  have x0: "x \<noteq> 0" using False by (simp add: x_def)
  define e where "e = max (ilog2 \<bar>x\<bar>) (- 1022)"
  have absx: "\<bar>x\<bar> = of_int \<bar>n\<bar> * 2 powi k" by (simp add: x_def abs_mult)
  have "(of_int \<bar>n\<bar> :: rat) < of_int (2 ^ 53)" using assms(1) by (simp only: of_int_less_iff)
  then have "(of_int \<bar>n\<bar> :: rat) < 2 powi 53" by simp
  then have "\<bar>x\<bar> < 2 powi 53 * 2 powi k" unfolding absx by (intro mult_strict_right_mono) simp_all
  also have "\<dots> = 2 powi (k + 53)" by (simp add: power_int_add)
  finally have up: "\<bar>x\<bar> < 2 powi (k + 53)" .
  have "ilog2 \<bar>x\<bar> < k + 53"
  proof (rule ccontr)
    assume "\<not> ilog2 \<bar>x\<bar> < k + 53"
    then have "(2::rat) powi (k + 53) \<le> 2 powi ilog2 \<bar>x\<bar>" by (intro power_int_increasing) simp_all
    moreover have "2 powi ilog2 \<bar>x\<bar> \<le> \<bar>x\<bar>" using x0 by (intro ilog2_bounds) simp
    ultimately show False using up by linarith
  qed
  then have e: "e - 52 \<le> k" using assms(2) by (simp add: e_def)
  define j where "j = nat (k - (e - 52))"
  have k: "k = (e - 52) + int j" using e by (simp add: j_def)
  have "x = of_int (n * 2 ^ j) * 2 powi (e - 52)"
    by (simp add: x_def k power_int_add mult.commute mult.left_commute)
  then have "x / 2 powi (e - 52) = of_int (n * 2 ^ j)" by simp
  then have "round_half_even (x / 2 powi (e - 52)) = n * 2 ^ j"
    by (simp only: round_half_even_of_int)
  then have "fl x = of_int (n * 2 ^ j) * 2 powi (e - 52)"
    using x0 by (simp add: fl_def Let_def e_def)
  also have "\<dots> = x" by (simp add: x_def k power_int_add mult.commute mult.left_commute)
  finally show ?thesis by (simp add: x_def)
qed

lemma fl_of_int:
  assumes "\<bar>n\<bar> \<le> 2 ^ 53"
  shows "fl (of_int n) = of_int n"
proof (cases "\<bar>n\<bar> < 2 ^ 53")
  case True
  then show ?thesis using fl_representable [of n 0] by simp
next
  case False
  with assms have "n = 2 ^ 53 \<or> n = - (2 ^ 53)" by linarith
  then show ?thesis
    using fl_representable [of 1 53] fl_representable [of "- 1" 53] by auto
qed


text \<open>
  The quotient of a span of at most \<open>2 ^ 53\<close> milliseconds by the milliseconds of a day
  is rounded, but never across a whole number: its ceiling is the exact one.
\<close>

lemma ceiling_fl_div_day:
  assumes "0 < n" "n \<le> 2 ^ 53"
  shows "\<lceil>fl (of_int n / 86400000)\<rceil> = \<lceil>(of_int n / 86400000 :: rat)\<rceil>"
proof -
  define x :: rat where "x = of_int n / 86400000"
  define k where "k = \<lceil>x\<rceil>"
  define e where "e = ilog2 x"
  have n1: "(1::rat) \<le> of_int n" using assms(1) by simp
  have n2: "(of_int n :: rat) \<le> 9007199254740992"
  proof -
    have "(of_int n :: rat) \<le> of_int (2 ^ 53)" using assms(2) by (simp only: of_int_le_iff)
    then show ?thesis by simp
  qed
  have xpos: "0 < x" using n1 by (simp add: x_def)
  have xlo: "2 powi (- 27) \<le> x" using n1 by (simp add: x_def power_int_minus_divide)
  have xhi: "x < 2 powi 27" using n2 by (simp add: x_def)
  have b: "2 powi e \<le> x" "x < 2 powi (e + 1)"
    unfolding e_def using xpos by (rule ilog2_bounds)+
  have e_hi: "e < 27"
  proof (rule ccontr)
    assume "\<not> e < 27"
    then have "(2::rat) powi 27 \<le> 2 powi e" by (intro power_int_increasing) simp_all
    with b(1) xhi show False by linarith
  qed
  have e_lo: "- 27 < e + 1"
  proof (rule ccontr)
    assume "\<not> - 27 < e + 1"
    then have "(2::rat) powi (e + 1) \<le> 2 powi (- 27)" by (intro power_int_increasing) simp_all
    with b(2) xlo show False by linarith
  qed
  define j where "j = nat (52 - e)"
  define Q :: int where "Q = 2 ^ j"
  have j26: "26 \<le> j" using e_hi by (simp add: j_def)
  have Qpos: "0 < Q" by (simp add: Q_def)
  have "(2::int) ^ 26 \<le> 2 ^ j" using j26 by (intro power_increasing) simp_all
  then have Q26: "67108864 \<le> Q" by (simp add: Q_def)
  have q: "(2::rat) powi (e - 52) = 1 / of_int Q"
  proof -
    have "e - 52 = - int j" using e_hi by (simp add: j_def)
    then show ?thesis by (simp add: Q_def power_int_minus_divide)
  qed
  define m where "m = round_half_even (x * of_int Q)"
  have flx: "fl x = of_int m / of_int Q"
  proof -
    have "fl x = of_int (round_half_even (x / 2 powi (e - 52))) * 2 powi (e - 52)"
      using b xpos e_lo by (intro fl_eqI) simp_all
    then show ?thesis by (simp add: q m_def)
  qed
  have Qr: "(0::rat) < of_int Q" using Qpos by simp
  have k_hi: "x \<le> of_int k" by (simp add: k_def)
  have k_lo: "of_int k - 1 < x" unfolding k_def by linarith
  have upper: "of_int m / of_int Q \<le> (of_int k :: rat)"
  proof -
    have "x * of_int Q \<le> of_int k * of_int Q" using k_hi Qr by (intro mult_right_mono) simp_all
    then have "x * of_int Q \<le> of_int (k * Q)" by simp
    then have "m \<le> k * Q" unfolding m_def by (rule round_half_even_le)
    then have "(of_int m :: rat) \<le> of_int (k * Q)" by (simp only: of_int_le_iff)
    then have "(of_int m :: rat) \<le> of_int k * of_int Q" by simp
    then show ?thesis using Qr by (simp add: pos_divide_le_eq)
  qed
  have lower: "(of_int k :: rat) - 1 < of_int m / of_int Q"
  proof -
    have "(of_int k - 1) * 86400000 < (of_int n :: rat)" using k_lo by (simp add: x_def)
    then have "(of_int ((k - 1) * 86400000) :: rat) < of_int n" by simp
    then have "(k - 1) * 86400000 < n" by (simp only: of_int_less_iff)
    then have "(k - 1) * 86400000 + 1 \<le> n" by simp
    then have "(of_int ((k - 1) * 86400000 + 1) :: rat) \<le> of_int n" by (simp only: of_int_le_iff)
    then have x1: "(of_int k - 1) + 1 / 86400000 \<le> x" by (simp add: x_def)
    have "(67108864 :: rat) \<le> of_int Q"
    proof -
      have "(of_int 67108864 :: rat) \<le> of_int Q" using Q26 by (simp only: of_int_le_iff)
      then show ?thesis by simp
    qed
    then have half: "1 / 2 < (1 / 86400000) * (of_int Q :: rat)" by simp
    have "((of_int k - 1) + 1 / 86400000) * of_int Q \<le> x * of_int Q"
      using x1 Qr by (intro mult_right_mono) simp_all
    then have "(of_int k - 1) * of_int Q + (1 / 86400000) * of_int Q \<le> x * of_int Q"
      by (simp only: distrib_right)
    with half have "(of_int k - 1) * of_int Q + 1 / 2 < x * of_int Q" by linarith
    then have "of_int ((k - 1) * Q) + 1 / 2 < x * of_int Q" by simp
    then have "(k - 1) * Q + 1 \<le> m" unfolding m_def by (rule round_half_even_above_half)
    then have "(k - 1) * Q < m" by simp
    then have "(of_int ((k - 1) * Q) :: rat) < of_int m" by (simp only: of_int_less_iff)
    then have "(of_int k - 1) * of_int Q < (of_int m :: rat)" by simp
    then show ?thesis using Qr by (simp add: pos_less_divide_eq)
  qed
  have "\<lceil>of_int m / (of_int Q :: rat)\<rceil> = k" using lower upper by (rule ceiling_unique)
  then show ?thesis unfolding flx [unfolded x_def] k_def x_def .
qed

text \<open>Evaluation of \<open>fl\<close> on the numbers of the examples.\<close>

lemma floor_rat_numeral_div:
  "\<lfloor>(numeral a :: rat) / numeral b\<rfloor> = numeral a div numeral b"
  using floor_divide_of_int_eq[of "numeral a" "numeral b", where ?'a = rat] by simp

lemma fl_0: "fl 0 = 0"
  by (simp add: fl_def)

lemma fl_1: "fl 1 = 1"
  using fl_of_int [of 1] by simp

lemma fl_numeral: "numeral k \<le> (9007199254740992 :: int) \<Longrightarrow> fl (numeral k) = numeral k"
  using fl_of_int [of "numeral k"] by simp

lemma fl_numeral_half:
  "numeral k < (9007199254740992 :: int) \<Longrightarrow> fl (numeral k / 2) = numeral k / 2"
  using fl_representable [of "numeral k" "- 1"] by simp

lemma fl_eval:
  assumes "2 powi e \<le> \<bar>x\<bar>" "\<bar>x\<bar> < 2 powi (e + 1)" "- 1022 \<le> e"
    and "round_half_even (x / 2 powi (e - 52)) = m"
  shows "fl x = of_int m * 2 powi (e - 52)"
  using fl_eqI [OF assms(1-3)] assms(4) by simp

lemmas fl_examples = fl_0 fl_1 fl_numeral fl_numeral_half

section \<open>Facts about the price functions\<close>

lemma str_eq_iff: "str a = str b \<longleftrightarrow> a = b"
  unfolding str_def by (rule inj_map_eq_map) (rule inj_of_char)

lemma str_Nil_iff: "str a = [] \<longleftrightarrow> a = []"
  unfolding str_def by simp

lemma calculatePrice_Summary:
  assumes "priceEl pg" "pickupEl pg = Some v" "v \<noteq> []" "dropoffEl pg = Some w" "w \<noteq> []"
    "categoryEl pg = Some c" "c \<noteq> []"
  shows "\<exists>q. calculatePrice nd cfg pg = Some (Summary q)
    \<and> category q = c \<and> selectedExtras q = checkedExtras pg
    \<and> days (prices q) =
        (if \<not> isFinite (Math_ceil (num_div (date_minus (nd w) (nd v)) 86400000))
            \<or> num_less (Math_ceil (num_div (date_minus (nd w) (nd v)) 86400000)) 1
         then Num 1 else Math_ceil (num_div (date_minus (nd w) (nd v)) 86400000))
    \<and> basePerDay (prices q) = price_or_0 (carCategories cfg) c
    \<and> baseTotal (prices q) =
        num_times (to_number (price_or_0 (carCategories cfg) c)) (days (prices q))
    \<and> extrasTotal (prices q) =
        foldl (\<lambda>acc key. num_plus acc
                 (num_times (to_number (price_or_0 (extras cfg) key)) (days (prices q))))
          (Num 0) (checkedExtras pg)
    \<and> subTotal (prices q) = num_plus (baseTotal (prices q)) (extrasTotal (prices q))
    \<and> depositAmount (prices q) =
        (if depositPercent cfg > 0
         then num_div (Math_round (num_times
                (num_div (num_times (subTotal (prices q)) (Num (depositPercent cfg))) 100)
                (Num 100))) 100
         else Num 0)
    \<and> totalAmount (prices q) = num_div (Math_round (num_times (subTotal (prices q)) (Num 100))) 100
    \<and> payment q = (case paymentEl pg of None \<Rightarrow> None
                   | Some m \<Rightarrow> if m = [] then None else Some (m, instructions_for m))"
  using assms by (simp add: calculatePrice_def Let_def)

lemma calculatePrice_Summary_inv:
  assumes "calculatePrice nd cfg pg = Some (Summary q)"
  shows "priceEl pg \<and> (\<exists>v w c. pickupEl pg = Some v \<and> v \<noteq> [] \<and> dropoffEl pg = Some w \<and> w \<noteq> []
     \<and> categoryEl pg = Some c \<and> c \<noteq> [])"
  using assms
  by (auto simp add: calculatePrice_def Let_def split: if_splits option.splits)

lemma calculatePrice_Prompt:
  "calculatePrice nd cfg pg = Some Prompt \<longleftrightarrow>
     priceEl pg \<and> (pickupEl pg = None \<or> pickupEl pg = Some [] \<or> dropoffEl pg = None
       \<or> dropoffEl pg = Some [] \<or> categoryEl pg = None \<or> categoryEl pg = Some [])"
  by (auto simp add: calculatePrice_def Let_def split: if_splits option.splits)

lemma handleBookingSubmit_Inr:
  assumes "nameEl pg = Some n" "emailEl pg = Some e" "phoneEl pg = Some ph"
    "pickupEl pg = Some v" "dropoffEl pg = Some w" "categoryEl pg = Some c"
    "paymentEl pg = Some m" "notesEl pg = Some t"
  shows "\<exists>b. handleBookingSubmit nd cfg pg = Inr b
    \<and> bookedCategory b = c \<and> bookedExtras b = checkedExtras pg
    \<and> days (bookedPrices b) =
        (if v = [] \<or> w = [] then Num 1
         else if \<not> isFinite (Math_ceil (num_div (date_minus (nd w) (nd v)) 86400000))
            \<or> num_less (Math_ceil (num_div (date_minus (nd w) (nd v)) 86400000)) 1
         then Num 1 else Math_ceil (num_div (date_minus (nd w) (nd v)) 86400000))
    \<and> basePerDay (bookedPrices b) = price_or_0 (carCategories cfg) c
    \<and> baseTotal (bookedPrices b) =
        num_times (to_number (price_or_0 (carCategories cfg) c)) (days (bookedPrices b))
    \<and> extrasTotal (bookedPrices b) =
        foldl (\<lambda>acc key. num_plus acc
                 (num_times (to_number (price_or_0 (extras cfg) key)) (days (bookedPrices b))))
          (Num 0) (checkedExtras pg)
    \<and> subTotal (bookedPrices b) = num_plus (baseTotal (bookedPrices b)) (extrasTotal (bookedPrices b))
    \<and> depositAmount (bookedPrices b) =
        (if depositPercent cfg > 0
         then num_div (Math_round (num_times
                (num_div (num_times (subTotal (bookedPrices b)) (Num (depositPercent cfg))) 100)
                (Num 100))) 100
         else Num 0)
    \<and> totalAmount (bookedPrices b) =
        num_div (Math_round (num_times (subTotal (bookedPrices b)) (Num 100))) 100"
  using assms by (simp add: handleBookingSubmit_def Let_def)


text \<open>
  The day count that both functions compute from the two dates: a whole number, at
  least 1, and the day count of the specification when the dropoff is at most \<open>2 ^ 53\<close>
  milliseconds after the pickup.
\<close>

lemma day_count_whole:
  "\<exists>n. 1 \<le> n \<and>
     (if \<not> isFinite (Math_ceil (num_div (date_minus d p) 86400000))
         \<or> num_less (Math_ceil (num_div (date_minus d p) 86400000)) 1
      then Num 1 else Math_ceil (num_div (date_minus d p) 86400000)) = Num (of_int n)"
proof (cases "date_minus d p")
  case NaN
  then show ?thesis by (intro exI[of _ 1]) simp
next
  case (Num x)
  show ?thesis
  proof (cases "\<lceil>fl (x / 86400000)\<rceil> < 1")
    case True
    then have "(of_int \<lceil>fl (x / 86400000)\<rceil> :: rat) < of_int 1" by (simp only: of_int_less_iff)
    then show ?thesis using Num by (intro exI[of _ 1]) simp
  next
    case False
    then have "\<not> (of_int \<lceil>fl (x / 86400000)\<rceil> :: rat) < 1" by simp
    then show ?thesis using Num False by (intro exI[of _ "\<lceil>fl (x / 86400000)\<rceil>"]) simp
  qed
qed

lemma day_count_spec:
  assumes "span_at_most_2_53 p d"
  shows "(if \<not> isFinite (Math_ceil (num_div (date_minus d p) 86400000))
         \<or> num_less (Math_ceil (num_div (date_minus d p) 86400000)) 1
      then Num 1 else Math_ceil (num_div (date_minus d p) 86400000)) = Num (spec_dayCount p d)"
proof (cases p)
  case Invalid_Date
  then show ?thesis by (simp add: spec_dayCount_def)
next
  case p: (Date a)
  show ?thesis
  proof (cases d)
    case Invalid_Date
    then show ?thesis using p by (simp add: spec_dayCount_def)
  next
    case d: (Date b)
    from assms have bound: "b - a \<le> 2 ^ 53" by (simp add: span_at_most_2_53_def p d)
    show ?thesis
    proof (cases "a < b")
      case True
      then have pos: "0 < b - a" by simp
      have exact: "fl (of_int (b - a)) = of_int (b - a)"
        using pos bound by (intro fl_of_int) simp
      have c: "\<lceil>fl (of_int (b - a) / 86400000)\<rceil> = \<lceil>(of_int (b - a) / 86400000 :: rat)\<rceil>"
        using pos bound by (rule ceiling_fl_div_day)
      have "(0::rat) < of_int (b - a) / 86400000" using pos by simp
      then have "0 < \<lceil>(of_int (b - a) / 86400000 :: rat)\<rceil>" by (simp only: zero_less_ceiling)
      then have "1 \<le> \<lceil>(of_int (b - a) / 86400000 :: rat)\<rceil>" by simp
      then have "(of_int 1 :: rat) \<le> of_int \<lceil>(of_int (b - a) / 86400000 :: rat)\<rceil>"
        by (simp only: of_int_le_iff)
      then have "\<not> (of_int \<lceil>(of_int (b - a) / 86400000 :: rat)\<rceil> :: rat) < 1" by simp
      then show ?thesis
        using True unfolding p d spec_dayCount_def
        by (simp add: exact c del: of_int_diff)
    next
      case False
      then have "(of_int (b - a) :: rat) \<le> 0" by simp
      then have "fl (of_int (b - a)) \<le> 0" by (rule fl_nonpos)
      then have "fl (of_int (b - a)) / 86400000 \<le> 0" by simp
      then have "fl (fl (of_int (b - a)) / 86400000) \<le> 0" by (rule fl_nonpos)
      then have "\<lceil>fl (fl (of_int (b - a)) / 86400000)\<rceil> \<le> 0" by (simp add: ceiling_le_iff)
      then have "\<lceil>fl (fl (of_int (b - a)) / 86400000)\<rceil> < 1" by simp
      then have "(of_int \<lceil>fl (fl (of_int (b - a)) / 86400000)\<rceil> :: rat) < of_int 1"
        by (simp only: of_int_less_iff)
      then show ?thesis
        using False unfolding p d spec_dayCount_def
        by (simp del: of_int_diff)
    qed
  qed
qed

lemma spec_dayCount_ge_1: "1 \<le> spec_dayCount p d"
  by (cases p; cases d) (simp_all add: spec_dayCount_def zero_less_divide_iff)


section \<open>The day count\<close>

lemma example_page_fields:
  "priceEl example_page" "pickupEl example_page = Some (str ''2025-06-01'')"
  "dropoffEl example_page = Some (str ''2025-06-04'')" "categoryEl example_page = Some (str ''SUV'')"
  "paymentEl example_page = Some (str ''PayPal'')" "nameEl example_page = Some (str ''Ann'')"
  "emailEl example_page = Some (str ''ann@example.com'')" "phoneEl example_page = Some (str ''123'')"
  "notesEl example_page = Some []" "checkedExtras example_page = [str ''GPS'']"
  by (simp_all add: example_page_def)

lemma far_apart_page_fields:
  "priceEl far_apart_page"
  "pickupEl far_apart_page = Some (str ''-198030-01-01T00:00:00.000Z'')"
  "dropoffEl far_apart_page = Some (str ''+201970-01-01T00:00:00.001Z'')"
  "categoryEl far_apart_page = Some (str ''SUV'')"
  by (simp_all add: far_apart_page_def example_page_def)

lemma example_Date_values:
  "example_Date (str ''2025-06-01'') = Date 1748736000000"
  "example_Date (str ''2025-06-02'') = Date 1748822400000"
  "example_Date (str ''2025-06-04'') = Date 1748995200000"
  "example_Date (str ''-198030-01-01T00:00:00.000Z'') = Date (- 6311390400000000)"
  "example_Date (str ''+201970-01-01T00:00:00.001Z'') = Date 6311390400000001"
  "example_Date (str ''soon'') = Invalid_Date"
  by (simp_all add: example_Date_def str_eq_iff)

lemma fl_far_apart: "fl 12622780800000001 = 12622780800000000"
  using fl_eval [of 53 12622780800000001 6311390400000000]
  by (simp add: round_half_even_def floor_rat_numeral_div)

text \<open>
  Claim C1, as stated, fails for two valid dates that are more than \<open>2 ^ 53\<close>
  milliseconds apart. From the start of the year 198030 before the common era to one
  millisecond after the start of the year 201970 there are 146097000 days and one
  millisecond, whose ceiling in days is 146097001; the difference of the two time
  values is rounded to a double, the millisecond is lost, and the day count is
  146097000.
\<close>

theorem far_apart_dates_lose_a_day:
  "example_Date (str ''-198030-01-01T00:00:00.000Z'') = Date (- 6311390400000000)
   \<and> example_Date (str ''+201970-01-01T00:00:00.001Z'') = Date 6311390400000001
   \<and> spec_dayCount (Date (- 6311390400000000)) (Date 6311390400000001) = 146097001
   \<and> (\<exists>q. calculatePrice example_Date DEFAULTS far_apart_page = Some (Summary q)
        \<and> days (prices q) = Num 146097000)"
proof -
  have "\<exists>q. calculatePrice example_Date DEFAULTS far_apart_page = Some (Summary q)
        \<and> days (prices q) = Num 146097000"
    using calculatePrice_Summary [of far_apart_page "str ''-198030-01-01T00:00:00.000Z''"
        "str ''+201970-01-01T00:00:00.001Z''" "str ''SUV''" example_Date DEFAULTS]
    by (simp add: far_apart_page_fields str_Nil_iff example_Date_values fl_far_apart fl_numeral)
       blast
  moreover have "spec_dayCount (Date (- 6311390400000000)) (Date 6311390400000001) = 146097001"
    by (simp add: spec_dayCount_def ceiling_unique)
  ultimately show ?thesis
    using example_Date_values(4,5) by (intro conjI)
qed

text \<open>
  Claim C1, amended. In the live price summary and in the booking submission alike, when
  the dropoff is at most \<open>2 ^ 53\<close> milliseconds after the pickup, the day count is the
  ceiling of (dropoff - pickup) / 86400000 when both texts parse to valid dates and the
  dropoff is after the pickup, and exactly 1 otherwise (dropoff not after pickup, or an
  invalid date; in the booking also an empty date field). Whatever the dates, the day
  count is a whole number, at least 1, and both functions return a result: no error is
  raised.
\<close>

theorem day_count_ceiling_or_one:
  "(priceEl pg \<and> pickupEl pg = Some v \<and> v \<noteq> [] \<and> dropoffEl pg = Some w \<and> w \<noteq> []
      \<and> categoryEl pg = Some c \<and> c \<noteq> []
     \<longrightarrow> (\<exists>q. calculatePrice new_Date cfg pg = Some (Summary q)
            \<and> (span_at_most_2_53 (new_Date v) (new_Date w)
                \<longrightarrow> days (prices q) = Num (spec_dayCount (new_Date v) (new_Date w)))
            \<and> (\<exists>k. 1 \<le> k \<and> days (prices q) = Num (of_int k))))
   \<and> (nameEl pg = Some n \<and> emailEl pg = Some e \<and> phoneEl pg = Some ph
      \<and> pickupEl pg = Some v \<and> dropoffEl pg = Some w \<and> categoryEl pg = Some c
      \<and> paymentEl pg = Some m \<and> notesEl pg = Some t
     \<longrightarrow> (\<exists>b. handleBookingSubmit new_Date cfg pg = Inr b
            \<and> (span_at_most_2_53 (new_Date v) (new_Date w)
                \<longrightarrow> days (bookedPrices b) =
                    (if v = [] \<or> w = [] then Num 1
                     else Num (spec_dayCount (new_Date v) (new_Date w))))
            \<and> (\<exists>k. 1 \<le> k \<and> days (bookedPrices b) = Num (of_int k))))"
proof (intro conjI impI)
  let ?D = "if \<not> isFinite (Math_ceil (num_div (date_minus (new_Date w) (new_Date v)) 86400000))
            \<or> num_less (Math_ceil (num_div (date_minus (new_Date w) (new_Date v)) 86400000)) 1
         then Num 1 else Math_ceil (num_div (date_minus (new_Date w) (new_Date v)) 86400000)"
  {
    assume "priceEl pg \<and> pickupEl pg = Some v \<and> v \<noteq> [] \<and> dropoffEl pg = Some w \<and> w \<noteq> []
      \<and> categoryEl pg = Some c \<and> c \<noteq> []"
    then obtain q where q: "calculatePrice new_Date cfg pg = Some (Summary q)"
      "days (prices q) = ?D"
      using calculatePrice_Summary[of pg v w c new_Date cfg] by blast
    have spec: "days (prices q) = Num (spec_dayCount (new_Date v) (new_Date w))"
      if "span_at_most_2_53 (new_Date v) (new_Date w)"
      unfolding q(2) using that by (rule day_count_spec)
    have whole: "\<exists>k. 1 \<le> k \<and> days (prices q) = Num (of_int k)"
      unfolding q(2) by (rule day_count_whole)
    show "\<exists>q. calculatePrice new_Date cfg pg = Some (Summary q)
      \<and> (span_at_most_2_53 (new_Date v) (new_Date w)
          \<longrightarrow> days (prices q) = Num (spec_dayCount (new_Date v) (new_Date w)))
      \<and> (\<exists>k. 1 \<le> k \<and> days (prices q) = Num (of_int k))"
      using q(1) spec whole by (intro exI[of _ q] conjI impI)
  }
  {
    assume "nameEl pg = Some n \<and> emailEl pg = Some e \<and> phoneEl pg = Some ph
      \<and> pickupEl pg = Some v \<and> dropoffEl pg = Some w \<and> categoryEl pg = Some c
      \<and> paymentEl pg = Some m \<and> notesEl pg = Some t"
    then obtain b where b: "handleBookingSubmit new_Date cfg pg = Inr b"
      "days (bookedPrices b) = (if v = [] \<or> w = [] then Num 1 else ?D)"
      using handleBookingSubmit_Inr[of pg n e ph v w c m t new_Date cfg] by blast
    have spec: "days (bookedPrices b) =
        (if v = [] \<or> w = [] then Num 1 else Num (spec_dayCount (new_Date v) (new_Date w)))"
      if "span_at_most_2_53 (new_Date v) (new_Date w)"
      unfolding b(2) using day_count_spec[OF that] by (simp only:)
    have whole: "\<exists>k. 1 \<le> k \<and> days (bookedPrices b) = Num (of_int k)"
    proof (cases "v = [] \<or> w = []")
      case True
      then have "days (bookedPrices b) = Num (of_int 1)" using b(2) by simp
      then show ?thesis by (intro exI[of _ 1]) simp
    next
      case False
      then have "days (bookedPrices b) = ?D" using b(2) by (simp only: if_False)
      then show ?thesis using day_count_whole[of "new_Date w" "new_Date v"] by (simp only:)
    qed
    show "\<exists>b. handleBookingSubmit new_Date cfg pg = Inr b
      \<and> (span_at_most_2_53 (new_Date v) (new_Date w)
          \<longrightarrow> days (bookedPrices b) =
              (if v = [] \<or> w = [] then Num 1
               else Num (spec_dayCount (new_Date v) (new_Date w))))
      \<and> (\<exists>k. 1 \<le> k \<and> days (bookedPrices b) = Num (of_int k))"
      using b(1) spec whole by (intro exI[of _ b] conjI impI)
  }
qed

lemma example_days:
  "span_at_most_2_53 (Date 1748736000000) (Date 1748995200000)"
  "spec_dayCount (Date 1748736000000) (Date 1748995200000) = 3"
  by (simp_all add: span_at_most_2_53_def spec_dayCount_def)

theorem day_count_ceiling_or_one_witness:
  "span_at_most_2_53 (example_Date (str ''2025-06-01'')) (example_Date (str ''2025-06-04''))
   \<and> (\<exists>q. calculatePrice example_Date DEFAULTS example_page = Some (Summary q)
       \<and> days (prices q) = Num 3)
   \<and> (\<exists>b. handleBookingSubmit example_Date DEFAULTS example_page = Inr b
       \<and> days (bookedPrices b) = Num 3)"
  using day_count_ceiling_or_one[of example_page "str ''2025-06-01''" "str ''2025-06-04''"
      "str ''SUV''" example_Date DEFAULTS "str ''Ann''" "str ''ann@example.com''" "str ''123''"
      "str ''PayPal''" "[]"]
  by (simp add: example_page_fields example_Date_values example_days str_Nil_iff) blast

section \<open>Validation of the quote inputs\<close>

lemma unparseable_page_fields:
  "priceEl unparseable_page" "pickupEl unparseable_page = Some (str ''soon'')"
  "dropoffEl unparseable_page = Some (str ''2025-06-04'')"
  "categoryEl unparseable_page = Some (str ''SUV'')"
  "paymentEl unparseable_page = Some (str ''PayPal'')"
  "checkedExtras unparseable_page = [str ''GPS'']"
  by (simp_all add: unparseable_page_def example_page_def)

lemma example_lookups:
  "price_or_0 (carCategories DEFAULTS) (str ''SUV'') = Value 50"
  "price_or_0 (extras DEFAULTS) (str ''GPS'') = Value 5"
  "instructions_for (str ''PayPal'') = Value PayPal_link"
  "depositPercent DEFAULTS = 30"
  by (simp_all add: price_or_0_def instructions_for_def property_of_def DEFAULTS_def
      PAYMENT_INSTRUCTIONS_def str_def)

text \<open>
  Claim C2, as stated, fails: a pickup text that is not empty but does not parse is not
  a validation failure. The price summary is computed, with a day count of 1.
\<close>

theorem unparseable_pickup_gets_a_quote:
  "example_Date (str ''soon'') = Invalid_Date
   \<and> calculatePrice example_Date DEFAULTS unparseable_page =
       Some (Summary \<lparr>
         category = str ''SUV'',
         selectedExtras = [str ''GPS''],
         prices = \<lparr> days = Num 1, basePerDay = Value 50, baseTotal = Num 50,
           extrasTotal = Num 5, subTotal = Num 55, depositAmount = Num (33 / 2),
           totalAmount = Num 55 \<rparr>,
         payment = Some (str ''PayPal'', Value PayPal_link) \<rparr>)"
  by (simp add: calculatePrice_def Let_def unparseable_page_fields example_Date_values
      example_lookups str_Nil_iff fl_examples floor_rat_numeral_div)

text \<open>
  Claim C2, amended. When the price summary element exists, \<open>calculatePrice\<close> shows the
  prompt and computes no quote exactly when the pickup field, the dropoff field or the
  category field is missing or empty. Whether a date text parses plays no part: with
  the three fields filled in, a summary is computed whatever \<open>new_Date\<close> returns.
  Without the price summary element nothing is shown.
\<close>

theorem prompt_iff_field_missing_or_empty:
  "(calculatePrice new_Date cfg pg = Some Prompt \<longleftrightarrow>
      priceEl pg
      \<and> (pickupEl pg = None \<or> pickupEl pg = Some [] \<or> dropoffEl pg = None
         \<or> dropoffEl pg = Some [] \<or> categoryEl pg = None \<or> categoryEl pg = Some []))
   \<and> ((\<exists>q. calculatePrice new_Date cfg pg = Some (Summary q)) \<longleftrightarrow>
      priceEl pg
      \<and> (\<exists>v w c. pickupEl pg = Some v \<and> v \<noteq> [] \<and> dropoffEl pg = Some w \<and> w \<noteq> []
            \<and> categoryEl pg = Some c \<and> c \<noteq> []))
   \<and> (calculatePrice new_Date cfg pg = None \<longleftrightarrow> \<not> priceEl pg)"
proof (intro conjI)
  show "calculatePrice new_Date cfg pg = Some Prompt \<longleftrightarrow>
      priceEl pg
      \<and> (pickupEl pg = None \<or> pickupEl pg = Some [] \<or> dropoffEl pg = None
         \<or> dropoffEl pg = Some [] \<or> categoryEl pg = None \<or> categoryEl pg = Some [])"
    by (rule calculatePrice_Prompt)
  show "(\<exists>q. calculatePrice new_Date cfg pg = Some (Summary q)) \<longleftrightarrow>
      priceEl pg
      \<and> (\<exists>v w c. pickupEl pg = Some v \<and> v \<noteq> [] \<and> dropoffEl pg = Some w \<and> w \<noteq> []
            \<and> categoryEl pg = Some c \<and> c \<noteq> [])"
    using calculatePrice_Summary calculatePrice_Summary_inv by meson
  show "calculatePrice new_Date cfg pg = None \<longleftrightarrow> \<not> priceEl pg"
    by (simp add: calculatePrice_def Let_def split: option.splits)
qed

theorem prompt_iff_field_missing_or_empty_witness:
  "calculatePrice example_Date DEFAULTS (example_page \<lparr> categoryEl := Some [] \<rparr>) = Some Prompt
   \<and> calculatePrice example_Date DEFAULTS (example_page \<lparr> pickupEl := None \<rparr>) = Some Prompt
   \<and> (\<exists>q. calculatePrice example_Date DEFAULTS unparseable_page = Some (Summary q))"
  using prompt_iff_field_missing_or_empty[of example_Date DEFAULTS "example_page \<lparr> categoryEl := Some [] \<rparr>"]
    prompt_iff_field_missing_or_empty[of example_Date DEFAULTS "example_page \<lparr> pickupEl := None \<rparr>"]
    prompt_iff_field_missing_or_empty[of example_Date DEFAULTS unparseable_page]
  by (simp add: example_page_def unparseable_page_def str_Nil_iff)

section \<open>Total and deposit\<close>

lemma van_fields:
  "priceEl van_page" "pickupEl van_page = Some (str ''2025-06-01'')"
  "dropoffEl van_page = Some (str ''2025-06-02'')" "categoryEl van_page = Some (str ''Van'')"
  "paymentEl van_page = Some (str ''PayPal'')" "checkedExtras van_page = []"
  "nameEl van_page = Some (str ''Ann'')" "emailEl van_page = Some (str ''ann@example.com'')"
  "phoneEl van_page = Some (str ''123'')" "notesEl van_page = Some []"
  "price_or_0 (carCategories van_settings) (str ''Van'') = Value 111"
  "depositPercent van_settings = 15 / 2"
  by (simp_all add: van_page_def example_page_def van_settings_def price_or_0_def
      property_of_def)

text \<open>
  The deposit of 7.5 percent on 111, step by step: 832.5 is a double; 8.325 is not,
  and the double nearest to it lies below it; its product with 100 is rounded to the
  double just below 832.5, which \<^verbatim>\<open>Math.round\<close> takes down to 832.
\<close>

lemma fl_8_325: "fl (333 / 40) = 2343279181116211 / 281474976710656"
  using fl_eval [of 3 "333 / 40" 4686558362232422]
  by (simp add: round_half_even_def floor_rat_numeral_div)

lemma fl_832_5_below: "fl (58581979527905275 / 70368744177664) = 7322747440988159 / 8796093022208"
  using fl_eval [of 9 "58581979527905275 / 70368744177664" 7322747440988159]
  by (simp add: round_half_even_def floor_rat_numeral_div)

lemma fl_8_32: "fl (208 / 25) = 1170935903116329 / 140737488355328"
  using fl_eval [of 3 "208 / 25" 4683743612465316]
  by (simp add: round_half_even_def floor_rat_numeral_div)

text \<open>
  Claim C3 fails on the code. With one category of 111 a day, a deposit of 7.5 percent
  and a rental of one day, the exact deposit is 8.325, which rounds half up to 8.33. The
  code computes, in both functions, the double nearest to 8.32 (shown as 8.32): the
  division by 100 and the multiplication by 100 before \<^verbatim>\<open>Math.round\<close> do not cancel in
  doubles. The total, 111, is right.
\<close>

theorem deposit_of_7_5_percent_on_111:
  "calculatePrice example_Date van_settings van_page =
     Some (Summary \<lparr>
       category = str ''Van'',
       selectedExtras = [],
       prices = \<lparr> days = Num 1, basePerDay = Value 111, baseTotal = Num 111,
         extrasTotal = Num 0, subTotal = Num 111, depositAmount = Num (fl (832 / 100)),
         totalAmount = Num 111 \<rparr>,
       payment = Some (str ''PayPal'', Value PayPal_link) \<rparr>)
   \<and> (\<exists>b. handleBookingSubmit example_Date van_settings van_page = Inr b
        \<and> depositAmount (bookedPrices b) = Num (fl (832 / 100)))
   \<and> half_up_cents (111 * (15 / 2) / 100) (833 / 100)
   \<and> \<bar>fl (832 / 100) - 832 / 100\<bar> < 1 / 10 ^ 15"
proof (intro conjI)
  show "calculatePrice example_Date van_settings van_page =
     Some (Summary \<lparr>
       category = str ''Van'',
       selectedExtras = [],
       prices = \<lparr> days = Num 1, basePerDay = Value 111, baseTotal = Num 111,
         extrasTotal = Num 0, subTotal = Num 111, depositAmount = Num (fl (832 / 100)),
         totalAmount = Num 111 \<rparr>,
       payment = Some (str ''PayPal'', Value PayPal_link) \<rparr>)"
    by (simp add: calculatePrice_def Let_def van_fields example_Date_values example_lookups
        str_Nil_iff fl_examples fl_8_325 fl_832_5_below floor_rat_numeral_div)
  show "\<exists>b. handleBookingSubmit example_Date van_settings van_page = Inr b
        \<and> depositAmount (bookedPrices b) = Num (fl (832 / 100))"
    by (simp add: handleBookingSubmit_def Let_def van_fields example_Date_values
        str_Nil_iff fl_examples fl_8_325 fl_832_5_below floor_rat_numeral_div)
  show "half_up_cents (111 * (15 / 2) / 100) (833 / 100)"
    by (simp add: half_up_cents_def)
  show "\<bar>fl (832 / 100) - 832 / 100\<bar> < 1 / 10 ^ 15"
    by (simp add: fl_8_32)
qed

theorem deposit_of_7_5_percent_on_111_witness:
  "(\<exists>q. calculatePrice example_Date van_settings van_page = Some (Summary q)
      \<and> subTotal (prices q) = Num 111 \<and> totalAmount (prices q) = Num 111
      \<and> depositAmount (prices q) = Num (fl (832 / 100)))
   \<and> \<not> half_up_cents (111 * (15 / 2) / 100) (832 / 100)"
  using deposit_of_7_5_percent_on_111 by (simp add: half_up_cents_def)

section \<open>The booking uses the formulas of the live quote\<close>





section \<open>Names that are in no table\<close>

lemma inherited_names_page_fields:
  "priceEl inherited_names_page" "pickupEl inherited_names_page = Some (str ''2025-06-01'')"
  "dropoffEl inherited_names_page = Some (str ''2025-06-04'')"
  "categoryEl inherited_names_page = Some (str ''constructor'')"
  "paymentEl inherited_names_page = Some (str ''valueOf'')"
  "checkedExtras inherited_names_page = [str ''GPS'', str ''toString'']"
  by (simp_all add: inherited_names_page_def example_page_def)

lemma inherited_names_lookups:
  "map_of (carCategories DEFAULTS) (str ''constructor'') = None"
  "map_of (extras DEFAULTS) (str ''toString'') = None"
  "map_of PAYMENT_INSTRUCTIONS (str ''valueOf'') = None"
  "price_or_0 (carCategories DEFAULTS) (str ''constructor'') = Prototype_member (str ''constructor'')"
  "price_or_0 (extras DEFAULTS) (str ''toString'') = Prototype_member (str ''toString'')"
  "instructions_for (str ''valueOf'') = Prototype_member (str ''valueOf'')"
  by (simp_all add: price_or_0_def instructions_for_def property_of_def Object_prototype_def
      DEFAULTS_def PAYMENT_INSTRUCTIONS_def str_def)

text \<open>
  Claim C7 fails on the code for a name that no table holds but \<^verbatim>\<open>Object.prototype\<close>
  does. A payment method named \<^verbatim>\<open>valueOf\<close>, which the admin can enter in the list of
  payment methods, is a key of no instruction, and yet the summary does not show the
  generic instruction: the lookup finds the inherited function, which is truthy, and
  shows that. Likewise a category named \<^verbatim>\<open>constructor\<close> and an extra named \<^verbatim>\<open>toString\<close>
  do not contribute 0: the base price, the extras price, the total and the deposit are
  all \<open>NaN\<close>.
\<close>

theorem inherited_names_are_found:
  "map_of (carCategories DEFAULTS) (str ''constructor'') = None
   \<and> map_of (extras DEFAULTS) (str ''toString'') = None
   \<and> map_of PAYMENT_INSTRUCTIONS (str ''valueOf'') = None
   \<and> calculatePrice example_Date DEFAULTS inherited_names_page =
       Some (Summary \<lparr>
         category = str ''constructor'',
         selectedExtras = [str ''GPS'', str ''toString''],
         prices = \<lparr> days = Num 3, basePerDay = Prototype_member (str ''constructor''),
           baseTotal = NaN, extrasTotal = NaN, subTotal = NaN, depositAmount = NaN,
           totalAmount = NaN \<rparr>,
         payment = Some (str ''valueOf'', Prototype_member (str ''valueOf'')) \<rparr>)"
  using inherited_names_lookups(1-3)
  by (simp add: calculatePrice_def Let_def inherited_names_page_fields example_Date_values
      example_lookups inherited_names_lookups str_Nil_iff fl_examples floor_rat_numeral_div)

theorem inherited_names_are_found_witness:
  "\<exists>q. calculatePrice example_Date DEFAULTS inherited_names_page = Some (Summary q)
     \<and> payment q \<noteq> Some (str ''valueOf'', Value Generic_contact)
     \<and> baseTotal (prices q) \<noteq> Num 0
     \<and> extrasTotal (prices q) \<noteq> Num 15"
  using inherited_names_are_found by simp

text \<open>
  What does hold: a category, an extra or a payment method that is neither in its table
  nor a name of \<^verbatim>\<open>Object.prototype\<close> gives a price of 0 or the generic instruction.
\<close>

lemma unknown_names_outside_the_prototype:
  assumes "key \<notin> set Object_prototype"
  shows "map_of table key = None \<Longrightarrow> price_or_0 table key = Value 0"
    and "map_of PAYMENT_INSTRUCTIONS key = None \<Longrightarrow> instructions_for key = Value Generic_contact"
  using assms by (simp_all add: price_or_0_def instructions_for_def property_of_def)

section \<open>The admin authentication state machine\<close>

lemma key_adminPassword_isAdmin: "str ''adminPassword'' \<noteq> str ''isAdmin''"
  by (simp add: str_eq_iff)

lemma getAdminPassword_setAdminLoggedIn:
  "getAdminPassword (setAdminLoggedIn store flag) = getAdminPassword store"
  using key_adminPassword_isAdmin
  by (simp add: getAdminPassword_def setAdminLoggedIn_def)

lemma isAdminLoggedIn_setAdminLoggedIn: "isAdminLoggedIn (setAdminLoggedIn store flag) = flag"
  by (simp add: isAdminLoggedIn_def setAdminLoggedIn_def)

lemma getAdminPassword_setAdminPassword:
  "pwd \<noteq> [] \<Longrightarrow> getAdminPassword (setAdminPassword store pwd) = Some pwd"
  by (simp add: getAdminPassword_def setAdminPassword_def)

lemma bio_login_click_logs_in: "auth_state_of (fst (bio_login_click store)) = LoggedIn"
  by (simp add: bio_login_click_def auth_state_of_def isAdminLoggedIn_setAdminLoggedIn)

lemma toggleAuth_signs_out:
  assumes "isAdminLoggedIn store"
  shows "\<not> isAdminLoggedIn (fst (toggleAuth container store))"
    and "getAdminPassword (fst (toggleAuth container store)) = getAdminPassword store"
  using assms
  by (simp_all add: toggleAuth_def isAdminLoggedIn_setAdminLoggedIn
      getAdminPassword_setAdminLoggedIn)

text \<open>
  Claim C4. In state NoPasswordSet the setup form is shown; submitting a new password
  whose trimmed length is below 4 is rejected with the validation notice and leaves the
  store as it was (still NoPasswordSet, no password stored), and one of trimmed length
  at least 4 stores the trimmed password and leads to LoggedIn. In state LoggedOut the
  login form is shown; submitting a text that differs from the stored password leaves
  the store as it was (still LoggedOut), and submitting exactly the stored password
  leads to LoggedIn.
\<close>

theorem auth_state_machine:
  "(auth_state_of store = NoPasswordSet \<longrightarrow>
      renderLoginContent True store = Some Setup_form
      \<and> (length (trim text) < 4 \<longrightarrow>
           setup_form_submit store text = (store, Password_too_short)
           \<and> getAdminPassword (fst (setup_form_submit store text)) = None
           \<and> auth_state_of (fst (setup_form_submit store text)) = NoPasswordSet)
      \<and> (length (trim text) \<ge> 4 \<longrightarrow>
           snd (setup_form_submit store text) = Password_saved
           \<and> getAdminPassword (fst (setup_form_submit store text)) = Some (trim text)
           \<and> auth_state_of (fst (setup_form_submit store text)) = LoggedIn))
   \<and> (auth_state_of store = LoggedOut \<longrightarrow>
      renderLoginContent True store = Some Login_form
      \<and> (Some text \<noteq> getAdminPassword store \<longrightarrow>
           login_form_submit store text = (store, Wrong_password)
           \<and> auth_state_of (fst (login_form_submit store text)) = LoggedOut)
      \<and> (Some text = getAdminPassword store \<longrightarrow>
           snd (login_form_submit store text) = Login_succeeded
           \<and> getAdminPassword (fst (login_form_submit store text)) = Some text
           \<and> auth_state_of (fst (login_form_submit store text)) = LoggedIn))"
proof (intro conjI impI)
  assume s: "auth_state_of store = NoPasswordSet"
  then have none: "getAdminPassword store = None" and out: "\<not> isAdminLoggedIn store"
    by (simp_all add: auth_state_of_def split: if_splits)
  show "renderLoginContent True store = Some Setup_form"
    using none by (simp add: renderLoginContent_def)
  {
    assume short: "length (trim text) < 4"
    then show "setup_form_submit store text = (store, Password_too_short)"
      by (simp add: setup_form_submit_def)
    then show "getAdminPassword (fst (setup_form_submit store text)) = None"
      "auth_state_of (fst (setup_form_submit store text)) = NoPasswordSet"
      using none s by simp_all
  }
  {
    assume long: "4 \<le> length (trim text)"
    then have ne: "trim text \<noteq> []" by auto
    have r: "setup_form_submit store text =
        (setAdminLoggedIn (setAdminPassword store (trim text)) True, Password_saved)"
      using long by (simp add: setup_form_submit_def)
    show "snd (setup_form_submit store text) = Password_saved"
      by (simp add: r)
    show "getAdminPassword (fst (setup_form_submit store text)) = Some (trim text)"
      by (simp add: r getAdminPassword_setAdminLoggedIn getAdminPassword_setAdminPassword[OF ne])
    show "auth_state_of (fst (setup_form_submit store text)) = LoggedIn"
      by (simp add: r auth_state_of_def isAdminLoggedIn_setAdminLoggedIn)
  }
next
  assume s: "auth_state_of store = LoggedOut"
  then have some: "getAdminPassword store \<noteq> None" and out: "\<not> isAdminLoggedIn store"
    by (simp_all add: auth_state_of_def split: if_splits)
  show "renderLoginContent True store = Some Login_form"
    using some by (simp add: renderLoginContent_def)
  {
    assume wrong: "Some text \<noteq> getAdminPassword store"
    then show "login_form_submit store text = (store, Wrong_password)"
      by (simp add: login_form_submit_def)
    then show "auth_state_of (fst (login_form_submit store text)) = LoggedOut"
      using s by simp
  }
  {
    assume right: "Some text = getAdminPassword store"
    then have r: "login_form_submit store text = (setAdminLoggedIn store True, Login_succeeded)"
      by (simp add: login_form_submit_def)
    show "snd (login_form_submit store text) = Login_succeeded"
      by (simp add: r)
    show "getAdminPassword (fst (login_form_submit store text)) = Some text"
      using right by (simp add: r getAdminPassword_setAdminLoggedIn)
    show "auth_state_of (fst (login_form_submit store text)) = LoggedIn"
      by (simp add: r auth_state_of_def isAdminLoggedIn_setAdminLoggedIn)
  }
qed


lemma length_str: "length (str s) = length s"
  by (simp add: str_def)

lemma auth_examples:
  "auth_state_of Map.empty = NoPasswordSet"
  "auth_state_of logged_out_store = LoggedOut"
  "getAdminPassword logged_out_store = Some (str ''abcd'')"
  "trim (str ''abc'') = str ''abc''"
  "trim (str '' abcd '') = str ''abcd''"
  by (simp_all add: auth_state_of_def isAdminLoggedIn_def getAdminPassword_def
      logged_out_store_def trim_def is_space_def str_def)

theorem auth_state_machine_witness:
  "auth_state_of Map.empty = NoPasswordSet
   \<and> setup_form_submit Map.empty (str ''abc'') = (Map.empty, Password_too_short)
   \<and> getAdminPassword (fst (setup_form_submit Map.empty (str '' abcd ''))) = Some (str ''abcd'')
   \<and> auth_state_of (fst (setup_form_submit Map.empty (str '' abcd ''))) = LoggedIn
   \<and> auth_state_of logged_out_store = LoggedOut
   \<and> login_form_submit logged_out_store (str ''abcx'') = (logged_out_store, Wrong_password)
   \<and> auth_state_of (fst (login_form_submit logged_out_store (str ''abcd''))) = LoggedIn"
  using auth_state_machine[of Map.empty "str ''abc''"]
    auth_state_machine[of Map.empty "str '' abcd ''"]
    auth_state_machine[of logged_out_store "str ''abcx''"]
    auth_state_machine[of logged_out_store "str ''abcd''"]
  by (simp add: auth_examples str_eq_iff length_str)

section \<open>Reading and writing the store\<close>

lemma Nil_eq_str_iff: "[] = str a \<longleftrightarrow> a = []"
  unfolding str_def by simp

text \<open>
  \<open>saveSetting\<close> stores the text that \<^verbatim>\<open>JSON.stringify\<close> writes and touches no other key.
  \<open>loadSetting\<close> returns what \<^verbatim>\<open>JSON.parse\<close> reads from a stored text that is not empty,
  the text itself when it does not parse, and the built-in default for an empty stored
  text or a missing key; no case raises an error.
\<close>

lemma loadSetting_saveSetting:
  "loadSetting rt (saveSetting rt store key v) key =
     (if JSON_stringify rt v = [] then DEFAULTS_at key
      else case JSON_parse rt (JSON_stringify rt v) of
             Some read \<Rightarrow> read
           | None \<Rightarrow> String (JSON_stringify rt v))"
  "other \<noteq> key \<Longrightarrow> loadSetting rt (saveSetting rt store key v) other = loadSetting rt store other"
  by (simp_all add: loadSetting_def saveSetting_def)

lemma loadSetting_unparseable:
  "store key = Some stored \<Longrightarrow> stored \<noteq> [] \<Longrightarrow> JSON_parse rt stored = None
     \<Longrightarrow> loadSetting rt store key = String stored"
  by (simp add: loadSetting_def)

lemma loadSetting_default:
  "store key = Some [] \<or> store key = None \<Longrightarrow> loadSetting rt store key = DEFAULTS_at key"
  by (auto simp add: loadSetting_def)

text \<open>
  A stored text that is empty cannot be parsed, yet \<open>loadSetting\<close> does not return it but
  the built-in default.
\<close>

lemma empty_stored_text_gives_default:
  "JSON_parse example_runtime [] = None
   \<and> loadSetting example_runtime [str ''vipCode'' \<mapsto> []] (str ''vipCode'') = String (str ''VIP2025'')
   \<and> loadSetting example_runtime [str ''vipCode'' \<mapsto> []] (str ''vipCode'') \<noteq> String []"
  by (simp add: loadSetting_def DEFAULTS_at_def property_of_def DEFAULTS_object_def DEFAULTS_def
      example_runtime_def example_JSON_parse_def str_eq_iff str_Nil_iff Nil_eq_str_iff)

section \<open>What each step of saving the settings changes\<close>

lemma edit_paymentMethods_frame:
  "phoneNumber (edit_paymentMethods rt a st) = phoneNumber st"
  "vipCode (edit_paymentMethods rt a st) = vipCode st"
  "vipGreeting (edit_paymentMethods rt a st) = vipGreeting st"
  "useWhatsApp (edit_paymentMethods rt a st) = useWhatsApp st"
  "carCategories (edit_paymentMethods rt a st) = carCategories st"
  "extras (edit_paymentMethods rt a st) = extras st"
  "depositPercent (edit_paymentMethods rt a st) = depositPercent st"
  "adminEmail (edit_paymentMethods rt a st) = adminEmail st"
  "key \<noteq> str ''paymentMethods'' \<Longrightarrow>
     localStorage (edit_paymentMethods rt a st) key = localStorage st key"
  by (simp_all add: edit_paymentMethods_def saveSetting_def Let_def split: option.splits)

lemma edit_carCategories_frame:
  "phoneNumber (edit_carCategories rt a st) = phoneNumber st"
  "vipCode (edit_carCategories rt a st) = vipCode st"
  "vipGreeting (edit_carCategories rt a st) = vipGreeting st"
  "useWhatsApp (edit_carCategories rt a st) = useWhatsApp st"
  "paymentMethods (edit_carCategories rt a st) = paymentMethods st"
  "extras (edit_carCategories rt a st) = extras st"
  "depositPercent (edit_carCategories rt a st) = depositPercent st"
  "adminEmail (edit_carCategories rt a st) = adminEmail st"
  "key \<noteq> str ''carCategories'' \<Longrightarrow>
     localStorage (edit_carCategories rt a st) key = localStorage st key"
  by (simp_all add: edit_carCategories_def saveSetting_def Let_def split: option.splits)

lemma edit_extras_frame:
  "phoneNumber (edit_extras rt a st) = phoneNumber st"
  "vipCode (edit_extras rt a st) = vipCode st"
  "vipGreeting (edit_extras rt a st) = vipGreeting st"
  "useWhatsApp (edit_extras rt a st) = useWhatsApp st"
  "paymentMethods (edit_extras rt a st) = paymentMethods st"
  "carCategories (edit_extras rt a st) = carCategories st"
  "depositPercent (edit_extras rt a st) = depositPercent st"
  "adminEmail (edit_extras rt a st) = adminEmail st"
  "key \<noteq> str ''extras'' \<Longrightarrow> localStorage (edit_extras rt a st) key = localStorage st key"
  by (simp_all add: edit_extras_def saveSetting_def Let_def split: option.splits)

lemma edit_depositPercent_frame:
  "phoneNumber (edit_depositPercent rt a st) = phoneNumber st"
  "vipCode (edit_depositPercent rt a st) = vipCode st"
  "vipGreeting (edit_depositPercent rt a st) = vipGreeting st"
  "useWhatsApp (edit_depositPercent rt a st) = useWhatsApp st"
  "paymentMethods (edit_depositPercent rt a st) = paymentMethods st"
  "carCategories (edit_depositPercent rt a st) = carCategories st"
  "extras (edit_depositPercent rt a st) = extras st"
  "adminEmail (edit_depositPercent rt a st) = adminEmail st"
  "key \<noteq> str ''depositPercent'' \<Longrightarrow>
     localStorage (edit_depositPercent rt a st) key = localStorage st key"
  by (simp_all add: edit_depositPercent_def saveSetting_def split: option.splits jsnum.splits)

lemma edit_adminEmail_frame:
  "phoneNumber (edit_adminEmail rt a st) = phoneNumber st"
  "vipCode (edit_adminEmail rt a st) = vipCode st"
  "vipGreeting (edit_adminEmail rt a st) = vipGreeting st"
  "useWhatsApp (edit_adminEmail rt a st) = useWhatsApp st"
  "paymentMethods (edit_adminEmail rt a st) = paymentMethods st"
  "carCategories (edit_adminEmail rt a st) = carCategories st"
  "extras (edit_adminEmail rt a st) = extras st"
  "depositPercent (edit_adminEmail rt a st) = depositPercent st"
  "key \<noteq> str ''adminEmail'' \<Longrightarrow> localStorage (edit_adminEmail rt a st) key = localStorage st key"
  by (simp_all add: edit_adminEmail_def saveSetting_def split: option.splits)

lemma persist_basic_settings_frame:
  "phoneNumber (persist_basic_settings rt st) = phoneNumber st"
  "vipCode (persist_basic_settings rt st) = vipCode st"
  "vipGreeting (persist_basic_settings rt st) = vipGreeting st"
  "useWhatsApp (persist_basic_settings rt st) = useWhatsApp st"
  "paymentMethods (persist_basic_settings rt st) = paymentMethods st"
  "carCategories (persist_basic_settings rt st) = carCategories st"
  "extras (persist_basic_settings rt st) = extras st"
  "depositPercent (persist_basic_settings rt st) = depositPercent st"
  "adminEmail (persist_basic_settings rt st) = adminEmail st"
  "key \<noteq> str ''phoneNumber'' \<Longrightarrow> key \<noteq> str ''vipCode'' \<Longrightarrow> key \<noteq> str ''vipGreeting'' \<Longrightarrow>
     localStorage (persist_basic_settings rt st) key = localStorage st key"
  by (simp_all add: persist_basic_settings_def saveSetting_def)

lemma edit_useWhatsApp_frame:
  "phoneNumber (edit_useWhatsApp rt a st) = phoneNumber st"
  "vipCode (edit_useWhatsApp rt a st) = vipCode st"
  "vipGreeting (edit_useWhatsApp rt a st) = vipGreeting st"
  "paymentMethods (edit_useWhatsApp rt a st) = paymentMethods st"
  "carCategories (edit_useWhatsApp rt a st) = carCategories st"
  "extras (edit_useWhatsApp rt a st) = extras st"
  "depositPercent (edit_useWhatsApp rt a st) = depositPercent st"
  "adminEmail (edit_useWhatsApp rt a st) = adminEmail st"
  "key \<noteq> str ''useWhatsApp'' \<Longrightarrow> localStorage (edit_useWhatsApp rt a st) key = localStorage st key"
  by (simp_all add: edit_useWhatsApp_def saveSetting_def Let_def split: option.splits)

lemmas settings_frame =
  edit_paymentMethods_frame edit_carCategories_frame edit_extras_frame
  edit_depositPercent_frame edit_adminEmail_frame persist_basic_settings_frame
  edit_useWhatsApp_frame

text \<open>The state that \<open>saveSettings\<close> leaves when the three text fields exist.\<close>

lemma saveSettings_ok:
  assumes "phoneInput inp = Some phone" "vipInput inp = Some code" "greetingInput inp = Some greeting"
  shows "saveSettings rt st inp =
    (edit_useWhatsApp rt (waInput inp)
      (persist_basic_settings rt
        (edit_adminEmail rt (emailPrompt inp)
          (edit_depositPercent rt (depInput inp)
            (edit_extras rt (extrasInput inp)
              (edit_carCategories rt (catInput inp)
                (edit_paymentMethods rt (pay inp)
                  (st \<lparr> phoneNumber := or_default (trim phone) (phoneNumber DEFAULTS),
                        vipCode := or_default (trim code) (vipCode DEFAULTS),
                        vipGreeting := or_default (trim greeting) (vipGreeting DEFAULTS) \<rparr>))))))),
     None)"
  using assms by (simp add: saveSettings_def Let_def)


lemma edit_cancelled:
  "a = None \<or> a = Some [] \<Longrightarrow> edit_paymentMethods rt a st = st"
  "a = None \<or> a = Some [] \<Longrightarrow> edit_carCategories rt a st = st"
  "a = None \<or> a = Some [] \<Longrightarrow> edit_extras rt a st = st"
  "a = None \<or> a = Some [] \<Longrightarrow> edit_adminEmail rt a st = st"
  "a = None \<or> (a = Some [] \<and> parseFloat rt [] = NaN) \<Longrightarrow> edit_depositPercent rt a st = st"
  by (auto simp add: edit_paymentMethods_def edit_carCategories_def edit_extras_def
      edit_adminEmail_def edit_depositPercent_def)

lemma edit_useWhatsApp_value:
  "useWhatsApp (edit_useWhatsApp rt a st) =
     (case a of
        None \<Rightarrow> useWhatsApp st
      | Some text \<Rightarrow> trim (toLowerCase rt text) = [957, 945, 953]
          \<or> trim (toLowerCase rt text) = str ''yes'')"
  by (simp add: edit_useWhatsApp_def Let_def split: option.splits)

lemma edit_useWhatsApp_stored:
  "localStorage (edit_useWhatsApp rt a st) (str ''useWhatsApp'') =
     Some (JSON_stringify rt (Bool (useWhatsApp (edit_useWhatsApp rt a st))))"
  by (simp add: edit_useWhatsApp_def saveSetting_def Let_def split: option.splits)

lemma trim_Nil: "trim [] = []"
  by (simp add: trim_def)

section \<open>Cancelled and empty edits\<close>

text \<open>
  Claim C5, as stated, fails for the phone field (and likewise the VIP code and the VIP
  greeting): left empty, it is reset to the built-in default, not kept. It fails for the
  chat-channel preference too: an empty answer, unlike a cancelled prompt, switches
  WhatsApp off.
\<close>

theorem empty_phone_field_resets_to_default:
  "phoneInput empty_form = Some [] \<and> waInput empty_form = Some []
   \<and> phoneNumber customised_state = str ''+306900000000''
   \<and> useWhatsApp customised_state = True
   \<and> phoneNumber (fst (saveSettings example_runtime customised_state empty_form))
       = str ''+302101234567''
   \<and> useWhatsApp (fst (saveSettings example_runtime customised_state empty_form)) = False"
proof -
  have f: "phoneInput empty_form = Some []" "vipInput empty_form = Some (str ''VIP2025'')"
    "greetingInput empty_form = Some (str ''Welcome'')" "waInput empty_form = Some []"
    by (simp_all add: empty_form_def)
  have c: "phoneNumber customised_state = str ''+306900000000''" "useWhatsApp customised_state = True"
    by (simp_all add: customised_state_def)
  have d: "phoneNumber DEFAULTS = str ''+302101234567''"
    by (simp add: DEFAULTS_def)
  have l: "toLowerCase example_runtime [] = []"
    by (simp add: example_runtime_def example_toLowerCase_def)
  show ?thesis
    by (simp add: saveSettings_ok[OF f(1-3)] f c d l settings_frame edit_useWhatsApp_value
        or_default_def trim_Nil Nil_eq_str_iff)
qed

text \<open>
  Claim C5, amended. When \<open>saveSettings\<close> runs (the three text fields exist): a prompt
  that is cancelled or answered with the empty text leaves the payment-method list, the
  vehicle categories, the extras, the deposit percentage and the admin email unchanged,
  in memory and in the store (for the deposit, the empty text being no number); a
  cancelled chat-channel prompt leaves the chat-channel preference unchanged. The phone,
  the VIP code and the VIP greeting are text fields: left empty after trimming, each is
  reset to its built-in default, and otherwise set to its trimmed text; the store gets
  the new value. An empty answer to the chat-channel prompt (whose lower-casing is
  empty) sets the preference to false.
\<close>

theorem cancelled_or_empty_edit:
  assumes "phoneInput inp = Some phone" "vipInput inp = Some code"
    "greetingInput inp = Some greeting"
  shows "let st' = fst (saveSettings rt st inp) in
    snd (saveSettings rt st inp) = None
    \<and> (pay inp = None \<or> pay inp = Some [] \<longrightarrow>
         paymentMethods st' = paymentMethods st
         \<and> localStorage st' (str ''paymentMethods'') = localStorage st (str ''paymentMethods''))
    \<and> (catInput inp = None \<or> catInput inp = Some [] \<longrightarrow>
         carCategories st' = carCategories st
         \<and> localStorage st' (str ''carCategories'') = localStorage st (str ''carCategories''))
    \<and> (extrasInput inp = None \<or> extrasInput inp = Some [] \<longrightarrow>
         extras st' = extras st
         \<and> localStorage st' (str ''extras'') = localStorage st (str ''extras''))
    \<and> (depInput inp = None \<or> (depInput inp = Some [] \<and> parseFloat rt [] = NaN) \<longrightarrow>
         depositPercent st' = depositPercent st
         \<and> localStorage st' (str ''depositPercent'') = localStorage st (str ''depositPercent''))
    \<and> (emailPrompt inp = None \<or> emailPrompt inp = Some [] \<longrightarrow>
         adminEmail st' = adminEmail st
         \<and> localStorage st' (str ''adminEmail'') = localStorage st (str ''adminEmail''))
    \<and> (waInput inp = None \<longrightarrow>
         useWhatsApp st' = useWhatsApp st
         \<and> localStorage st' (str ''useWhatsApp'') = Some (JSON_stringify rt (Bool (useWhatsApp st))))
    \<and> (waInput inp = Some [] \<and> toLowerCase rt [] = [] \<longrightarrow> useWhatsApp st' = False)
    \<and> phoneNumber st' = (if trim phone = [] then phoneNumber DEFAULTS else trim phone)
    \<and> vipCode st' = (if trim code = [] then vipCode DEFAULTS else trim code)
    \<and> vipGreeting st' = (if trim greeting = [] then vipGreeting DEFAULTS else trim greeting)
    \<and> localStorage st' (str ''phoneNumber'') = Some (JSON_stringify rt (String (phoneNumber st')))
    \<and> localStorage st' (str ''vipCode'') = Some (JSON_stringify rt (String (vipCode st')))
    \<and> localStorage st' (str ''vipGreeting'') = Some (JSON_stringify rt (String (vipGreeting st')))"
proof -
  note ok = saveSettings_ok[OF assms, of rt st]
  have pay: "paymentMethods (fst (saveSettings rt st inp)) = paymentMethods st
      \<and> localStorage (fst (saveSettings rt st inp)) (str ''paymentMethods'')
        = localStorage st (str ''paymentMethods'')"
    if "pay inp = None \<or> pay inp = Some []"
    by (simp add: ok settings_frame str_eq_iff edit_cancelled(1)[OF that])
  have cat: "carCategories (fst (saveSettings rt st inp)) = carCategories st
      \<and> localStorage (fst (saveSettings rt st inp)) (str ''carCategories'')
        = localStorage st (str ''carCategories'')"
    if "catInput inp = None \<or> catInput inp = Some []"
    by (simp add: ok settings_frame str_eq_iff edit_cancelled(2)[OF that])
  have ext: "extras (fst (saveSettings rt st inp)) = extras st
      \<and> localStorage (fst (saveSettings rt st inp)) (str ''extras'') = localStorage st (str ''extras'')"
    if "extrasInput inp = None \<or> extrasInput inp = Some []"
    by (simp add: ok settings_frame str_eq_iff edit_cancelled(3)[OF that])
  have dep: "depositPercent (fst (saveSettings rt st inp)) = depositPercent st
      \<and> localStorage (fst (saveSettings rt st inp)) (str ''depositPercent'')
        = localStorage st (str ''depositPercent'')"
    if "depInput inp = None \<or> (depInput inp = Some [] \<and> parseFloat rt [] = NaN)"
    by (simp add: ok settings_frame str_eq_iff edit_cancelled(5)[OF that])
  have mail: "adminEmail (fst (saveSettings rt st inp)) = adminEmail st
      \<and> localStorage (fst (saveSettings rt st inp)) (str ''adminEmail'')
        = localStorage st (str ''adminEmail'')"
    if "emailPrompt inp = None \<or> emailPrompt inp = Some []"
    by (simp add: ok settings_frame str_eq_iff edit_cancelled(4)[OF that])
  have wa: "useWhatsApp (fst (saveSettings rt st inp)) = useWhatsApp st
      \<and> localStorage (fst (saveSettings rt st inp)) (str ''useWhatsApp'')
        = Some (JSON_stringify rt (Bool (useWhatsApp st)))"
    if "waInput inp = None"
    by (simp add: ok that settings_frame edit_useWhatsApp_value edit_useWhatsApp_stored)
  have wa_empty: "useWhatsApp (fst (saveSettings rt st inp)) = False"
    if "waInput inp = Some [] \<and> toLowerCase rt [] = []"
    using that by (simp add: ok edit_useWhatsApp_value trim_Nil Nil_eq_str_iff)
  have basic: "phoneNumber (fst (saveSettings rt st inp))
        = (if trim phone = [] then phoneNumber DEFAULTS else trim phone)"
    "vipCode (fst (saveSettings rt st inp)) = (if trim code = [] then vipCode DEFAULTS else trim code)"
    "vipGreeting (fst (saveSettings rt st inp))
        = (if trim greeting = [] then vipGreeting DEFAULTS else trim greeting)"
    by (simp_all add: ok settings_frame or_default_def)
  have stored: "localStorage (fst (saveSettings rt st inp)) (str ''phoneNumber'')
        = Some (JSON_stringify rt (String (phoneNumber (fst (saveSettings rt st inp)))))"
    "localStorage (fst (saveSettings rt st inp)) (str ''vipCode'')
        = Some (JSON_stringify rt (String (vipCode (fst (saveSettings rt st inp)))))"
    "localStorage (fst (saveSettings rt st inp)) (str ''vipGreeting'')
        = Some (JSON_stringify rt (String (vipGreeting (fst (saveSettings rt st inp)))))"
    by (simp_all add: ok settings_frame str_eq_iff persist_basic_settings_def saveSetting_def)
  have none: "snd (saveSettings rt st inp) = None"
    by (simp add: ok)
  show ?thesis
    unfolding Let_def
    using none pay cat ext dep mail wa wa_empty basic stored
    by (intro conjI impI) (blast | assumption)+
qed


lemma empty_form_fields:
  "phoneInput empty_form = Some []" "vipInput empty_form = Some (str ''VIP2025'')"
  "greetingInput empty_form = Some (str ''Welcome'')" "pay empty_form = None"
  "catInput empty_form = Some []" "extrasInput empty_form = None" "depInput empty_form = Some []"
  "emailPrompt empty_form = None" "waInput empty_form = Some []"
  by (simp_all add: empty_form_def)

lemma example_runtime_on_empty:
  "parseFloat example_runtime [] = NaN" "toLowerCase example_runtime [] = []"
  by (simp_all add: example_runtime_def example_parseFloat_def example_toLowerCase_def
      Nil_eq_str_iff)

theorem cancelled_or_empty_edit_witness:
  "paymentMethods (fst (saveSettings example_runtime customised_state empty_form))
     = paymentMethods customised_state
   \<and> carCategories (fst (saveSettings example_runtime customised_state empty_form))
     = carCategories customised_state
   \<and> extras (fst (saveSettings example_runtime customised_state empty_form))
     = extras customised_state
   \<and> depositPercent (fst (saveSettings example_runtime customised_state empty_form))
     = depositPercent customised_state
   \<and> adminEmail (fst (saveSettings example_runtime customised_state empty_form))
     = adminEmail customised_state
   \<and> localStorage (fst (saveSettings example_runtime customised_state empty_form))
       (str ''depositPercent'') = localStorage customised_state (str ''depositPercent'')
   \<and> phoneNumber (fst (saveSettings example_runtime customised_state empty_form))
     = phoneNumber DEFAULTS
   \<and> useWhatsApp (fst (saveSettings example_runtime customised_state empty_form)) = False"
  using cancelled_or_empty_edit[OF empty_form_fields(1-3), of example_runtime customised_state]
  by (simp add: Let_def empty_form_fields example_runtime_on_empty trim_Nil)

section \<open>The deposit percentage stays within 0 and 100\<close>

lemma edit_depositPercent_cases:
  "(edit_depositPercent rt a st = st)
   \<or> (\<exists>text p. a = Some text \<and> parseFloat rt text = Num p \<and> 0 \<le> p \<and> p \<le> 100
        \<and> depositPercent (edit_depositPercent rt a st) = p
        \<and> localStorage (edit_depositPercent rt a st) (str ''depositPercent'')
            = Some (JSON_stringify rt (Number p)))"
  by (auto simp add: edit_depositPercent_def saveSetting_def split: option.splits jsnum.splits)

lemma saveSettings_unless_ok:
  assumes "phoneInput inp = None \<or> vipInput inp = None \<or> greetingInput inp = None"
  shows "paymentMethods (fst (saveSettings rt st inp)) = paymentMethods st"
    "carCategories (fst (saveSettings rt st inp)) = carCategories st"
    "extras (fst (saveSettings rt st inp)) = extras st"
    "depositPercent (fst (saveSettings rt st inp)) = depositPercent st"
    "adminEmail (fst (saveSettings rt st inp)) = adminEmail st"
    "useWhatsApp (fst (saveSettings rt st inp)) = useWhatsApp st"
    "localStorage (fst (saveSettings rt st inp)) = localStorage st"
    "snd (saveSettings rt st inp) = Some TypeError"
  using assms by (auto simp add: saveSettings_def Let_def split: option.splits)

lemma saveSettings_deposit:
  "(depositPercent (fst (saveSettings rt st inp)) = depositPercent st
     \<and> localStorage (fst (saveSettings rt st inp)) (str ''depositPercent'')
         = localStorage st (str ''depositPercent''))
   \<or> (\<exists>text p. depInput inp = Some text \<and> parseFloat rt text = Num p \<and> 0 \<le> p \<and> p \<le> 100
        \<and> depositPercent (fst (saveSettings rt st inp)) = p
        \<and> localStorage (fst (saveSettings rt st inp)) (str ''depositPercent'')
            = Some (JSON_stringify rt (Number p)))"
proof (cases "phoneInput inp = None \<or> vipInput inp = None \<or> greetingInput inp = None")
  case True
  then show ?thesis by (simp add: saveSettings_unless_ok)
next
  case False
  then obtain phone code greeting where f: "phoneInput inp = Some phone" "vipInput inp = Some code"
    "greetingInput inp = Some greeting" by auto
  let ?s6 = "edit_extras rt (extrasInput inp)
      (edit_carCategories rt (catInput inp)
        (edit_paymentMethods rt (pay inp)
          (st \<lparr> phoneNumber := or_default (trim phone) (phoneNumber DEFAULTS),
                vipCode := or_default (trim code) (vipCode DEFAULTS),
                vipGreeting := or_default (trim greeting) (vipGreeting DEFAULTS) \<rparr>)))"
  have before: "depositPercent ?s6 = depositPercent st"
    "localStorage ?s6 (str ''depositPercent'') = localStorage st (str ''depositPercent'')"
    by (simp_all add: settings_frame str_eq_iff)
  have after: "depositPercent (fst (saveSettings rt st inp))
      = depositPercent (edit_depositPercent rt (depInput inp) ?s6)"
    "localStorage (fst (saveSettings rt st inp)) (str ''depositPercent'')
      = localStorage (edit_depositPercent rt (depInput inp) ?s6) (str ''depositPercent'')"
    by (simp_all add: saveSettings_ok[OF f] settings_frame str_eq_iff)
  from edit_depositPercent_cases[of rt "depInput inp" ?s6] show ?thesis
    unfolding after using before by auto
qed

lemma saveSettings_deposit_range:
  assumes "0 \<le> depositPercent st \<and> depositPercent st \<le> 100"
  shows "0 \<le> depositPercent (fst (saveSettings rt st inp))
    \<and> depositPercent (fst (saveSettings rt st inp)) \<le> 100"
  using saveSettings_deposit[of rt st inp] assms by auto

lemma saveSettings_all_deposit_range:
  assumes "0 \<le> depositPercent st \<and> depositPercent st \<le> 100"
  shows "0 \<le> depositPercent (saveSettings_all rt st inps)
    \<and> depositPercent (saveSettings_all rt st inps) \<le> 100"
  using assms
proof (induction inps arbitrary: st)
  case Nil
  then show ?case by (simp add: saveSettings_all_def)
next
  case (Cons inp inps)
  from Cons.IH[OF saveSettings_deposit_range[OF Cons.prems, of rt inp]]
  show ?case by (simp add: saveSettings_all_def)
qed

lemma saveSettings_all_deposit_stored:
  assumes "localStorage st (str ''depositPercent'') = None
    \<or> (\<exists>p. 0 \<le> p \<and> p \<le> 100
         \<and> localStorage st (str ''depositPercent'') = Some (JSON_stringify rt (Number p)))"
  shows "localStorage (saveSettings_all rt st inps) (str ''depositPercent'') = None
    \<or> (\<exists>p. 0 \<le> p \<and> p \<le> 100
         \<and> localStorage (saveSettings_all rt st inps) (str ''depositPercent'')
             = Some (JSON_stringify rt (Number p)))"
  using assms
proof (induction inps arbitrary: st)
  case Nil
  then show ?case by (simp add: saveSettings_all_def)
next
  case (Cons inp inps)
  have "localStorage (fst (saveSettings rt st inp)) (str ''depositPercent'') = None
    \<or> (\<exists>p. 0 \<le> p \<and> p \<le> 100
         \<and> localStorage (fst (saveSettings rt st inp)) (str ''depositPercent'')
             = Some (JSON_stringify rt (Number p)))"
    using saveSettings_deposit[of rt st inp] Cons.prems by auto
  from Cons.IH[OF this] show ?case by (simp add: saveSettings_all_def)
qed

lemma fresh_state_fields:
  "depositPercent fresh_state = 30" "localStorage fresh_state = Map.empty"
  "carCategories fresh_state = carCategories DEFAULTS" "extras fresh_state = extras DEFAULTS"
  "carCategories fresh_state \<noteq> []" "extras fresh_state \<noteq> []"
  by (simp_all add: fresh_state_def settings.defs DEFAULTS_def)

lemma saveSettings_deposit_accepted:
  assumes f: "phoneInput inp = Some phone" "vipInput inp = Some code"
      "greetingInput inp = Some greeting"
    and a: "depInput inp = Some text" "parseFloat rt text = Num p" "0 \<le> p" "p \<le> 100"
  shows "depositPercent (fst (saveSettings rt st inp)) = p"
    "localStorage (fst (saveSettings rt st inp)) (str ''depositPercent'')
       = Some (JSON_stringify rt (Number p))"
  using a
  by (simp_all add: saveSettings_ok[OF f] settings_frame str_eq_iff edit_depositPercent_def
      saveSetting_def)

lemma saveSettings_deposit_refused:
  assumes "depInput inp = Some text"
    and "parseFloat rt text = NaN \<or> (\<exists>p. parseFloat rt text = Num p \<and> (p < 0 \<or> 100 < p))"
  shows "depositPercent (fst (saveSettings rt st inp)) = depositPercent st
    \<and> localStorage (fst (saveSettings rt st inp)) (str ''depositPercent'')
        = localStorage st (str ''depositPercent'')"
  using saveSettings_deposit[of rt st inp] assms by auto

lemma deposit_form_fields:
  "phoneInput deposit_25_form = Some []" "vipInput deposit_25_form = Some (str ''VIP2025'')"
  "greetingInput deposit_25_form = Some (str ''Welcome'')"
  "depInput deposit_25_form = Some (str ''25'')"
  "depInput deposit_150_form = Some (str ''150'')"
  by (simp_all add: deposit_25_form_def deposit_150_form_def empty_form_def)

lemma example_parseFloat_values:
  "parseFloat example_runtime (str ''25'') = Num 25"
  "parseFloat example_runtime (str ''150'') = Num 150"
  by (simp_all add: example_runtime_def example_parseFloat_def str_eq_iff)

text \<open>
  Claim C9, as stated, fails: the deposit percentage is not clamped on write. An answer
  of 150 is not stored as 100; it is refused, and the percentage stays at 30 with nothing
  written to the store.
\<close>

theorem deposit_150_is_refused_not_clamped:
  "parseFloat example_runtime (str ''150'') = Num 150
   \<and> clamp_0_100 150 = 100
   \<and> depositPercent fresh_state = 30
   \<and> depositPercent (fst (saveSettings example_runtime fresh_state deposit_150_form)) = 30
   \<and> localStorage (fst (saveSettings example_runtime fresh_state deposit_150_form))
       (str ''depositPercent'') = None"
  using saveSettings_deposit_refused[of deposit_150_form "str ''150''" example_runtime fresh_state]
  by (simp add: deposit_form_fields example_parseFloat_values fresh_state_fields clamp_0_100_def)

text \<open>
  Claim C9, amended. The deposit percentage is checked against the range from 0 to 100
  on write. Every call of \<open>saveSettings\<close> either leaves it alone, in memory and in the
  store, or sets both to the number that the answer to the deposit prompt parses to,
  which then lies between 0 and 100: nothing outside the range is ever written. An
  answer that parses to a number within the range is written (when the call gets that
  far), and one that is no number or lies outside the range changes nothing: it is
  refused, not moved to the nearest bound. So a deposit percentage within the range
  stays within the range, and after any series of calls on a freshly loaded page the
  cached value lies between 0 and 100 and the store holds no entry or the text of a
  number between 0 and 100.
\<close>

theorem depositPercent_within_0_100:
  "((depositPercent (fst (saveSettings rt st inp)) = depositPercent st
       \<and> localStorage (fst (saveSettings rt st inp)) (str ''depositPercent'')
           = localStorage st (str ''depositPercent''))
     \<or> (\<exists>text p. depInput inp = Some text \<and> parseFloat rt text = Num p \<and> 0 \<le> p \<and> p \<le> 100
          \<and> depositPercent (fst (saveSettings rt st inp)) = p
          \<and> localStorage (fst (saveSettings rt st inp)) (str ''depositPercent'')
              = Some (JSON_stringify rt (Number p))))
   \<and> (phoneInput inp = Some phone \<and> vipInput inp = Some code \<and> greetingInput inp = Some greeting
      \<and> depInput inp = Some answer \<and> parseFloat rt answer = Num q \<and> 0 \<le> q \<and> q \<le> 100
      \<longrightarrow> depositPercent (fst (saveSettings rt st inp)) = q
          \<and> localStorage (fst (saveSettings rt st inp)) (str ''depositPercent'')
              = Some (JSON_stringify rt (Number q)))
   \<and> (depInput inp = Some answer
      \<and> (parseFloat rt answer = NaN \<or> (\<exists>p. parseFloat rt answer = Num p \<and> (p < 0 \<or> 100 < p)))
      \<longrightarrow> depositPercent (fst (saveSettings rt st inp)) = depositPercent st
          \<and> localStorage (fst (saveSettings rt st inp)) (str ''depositPercent'')
              = localStorage st (str ''depositPercent''))
   \<and> (0 \<le> depositPercent st \<and> depositPercent st \<le> 100
      \<longrightarrow> 0 \<le> depositPercent (fst (saveSettings rt st inp))
          \<and> depositPercent (fst (saveSettings rt st inp)) \<le> 100)
   \<and> 0 \<le> depositPercent (saveSettings_all rt fresh_state inps)
   \<and> depositPercent (saveSettings_all rt fresh_state inps) \<le> 100
   \<and> (localStorage (saveSettings_all rt fresh_state inps) (str ''depositPercent'') = None
      \<or> (\<exists>p. 0 \<le> p \<and> p \<le> 100
           \<and> localStorage (saveSettings_all rt fresh_state inps) (str ''depositPercent'')
               = Some (JSON_stringify rt (Number p))))"
proof (intro conjI impI)
  show "localStorage (saveSettings_all rt fresh_state inps) (str ''depositPercent'') = None
      \<or> (\<exists>p. 0 \<le> p \<and> p \<le> 100
           \<and> localStorage (saveSettings_all rt fresh_state inps) (str ''depositPercent'')
               = Some (JSON_stringify rt (Number p)))"
    by (rule saveSettings_all_deposit_stored) (simp add: fresh_state_fields)
  {
    assume a: "phoneInput inp = Some phone \<and> vipInput inp = Some code
      \<and> greetingInput inp = Some greeting
      \<and> depInput inp = Some answer \<and> parseFloat rt answer = Num q \<and> 0 \<le> q \<and> q \<le> 100"
    then show "depositPercent (fst (saveSettings rt st inp)) = q"
      using saveSettings_deposit_accepted(1)[of inp phone code greeting answer rt q st] by blast
    from a show "localStorage (fst (saveSettings rt st inp)) (str ''depositPercent'')
        = Some (JSON_stringify rt (Number q))"
      using saveSettings_deposit_accepted(2)[of inp phone code greeting answer rt q st] by blast
  }
  {
    assume a: "depInput inp = Some answer
      \<and> (parseFloat rt answer = NaN \<or> (\<exists>p. parseFloat rt answer = Num p \<and> (p < 0 \<or> 100 < p)))"
    then show "depositPercent (fst (saveSettings rt st inp)) = depositPercent st"
      using saveSettings_deposit_refused[of inp answer rt st] by blast
    from a show "localStorage (fst (saveSettings rt st inp)) (str ''depositPercent'')
        = localStorage st (str ''depositPercent'')"
      using saveSettings_deposit_refused[of inp answer rt st] by blast
  }
  show "(depositPercent (fst (saveSettings rt st inp)) = depositPercent st
       \<and> localStorage (fst (saveSettings rt st inp)) (str ''depositPercent'')
           = localStorage st (str ''depositPercent''))
     \<or> (\<exists>text p. depInput inp = Some text \<and> parseFloat rt text = Num p \<and> 0 \<le> p \<and> p \<le> 100
          \<and> depositPercent (fst (saveSettings rt st inp)) = p
          \<and> localStorage (fst (saveSettings rt st inp)) (str ''depositPercent'')
              = Some (JSON_stringify rt (Number p)))"
    by (rule saveSettings_deposit)
  have fresh: "0 \<le> depositPercent fresh_state \<and> depositPercent fresh_state \<le> 100"
    by (simp add: fresh_state_fields)
  show "0 \<le> depositPercent (saveSettings_all rt fresh_state inps)"
    "depositPercent (saveSettings_all rt fresh_state inps) \<le> 100"
    using saveSettings_all_deposit_range[OF fresh, of rt inps] by blast+
  assume "0 \<le> depositPercent st \<and> depositPercent st \<le> 100"
  then show "0 \<le> depositPercent (fst (saveSettings rt st inp))"
    "depositPercent (fst (saveSettings rt st inp)) \<le> 100"
    using saveSettings_deposit_range[of st rt inp] by blast+
qed


theorem depositPercent_within_0_100_witness:
  "depositPercent fresh_state = 30
   \<and> depositPercent (fst (saveSettings example_runtime fresh_state deposit_25_form)) = 25
   \<and> localStorage (fst (saveSettings example_runtime fresh_state deposit_25_form))
       (str ''depositPercent'') = Some (JSON_stringify example_runtime (Number 25))
   \<and> depositPercent (fst (saveSettings example_runtime fresh_state deposit_150_form)) = 30
   \<and> localStorage (fst (saveSettings example_runtime fresh_state deposit_150_form))
       (str ''depositPercent'') = None
   \<and> depositPercent (saveSettings_all example_runtime fresh_state
        [deposit_25_form, deposit_150_form]) \<le> 100"
  using depositPercent_within_0_100[of example_runtime fresh_state deposit_25_form "[]"
      "str ''VIP2025''" "str ''Welcome''" "str ''25''" 25 "[deposit_25_form, deposit_150_form]"]
    depositPercent_within_0_100[of example_runtime fresh_state deposit_150_form _ _ _
      "str ''150''" _ "[]"]
  by (simp add: deposit_form_fields example_parseFloat_values fresh_state_fields)

section \<open>The price tables are never emptied\<close>

lemma add_price_pair_invalid: "\<not> valid_pair rt pair \<Longrightarrow> add_price_pair rt table pair = table"
  by (auto simp add: add_price_pair_def valid_pair_def split: list.splits jsnum.splits)

lemma foldl_add_price_pair_invalid:
  "\<not> list_ex (valid_pair rt) pairs \<Longrightarrow> foldl (add_price_pair rt) table pairs = table"
  by (induction pairs arbitrary: table) (simp_all add: add_price_pair_invalid)

lemma parse_price_pairs_invalid:
  "\<not> list_ex (valid_pair rt) (split_on 44 text) \<Longrightarrow> parse_price_pairs rt text = []"
  by (simp add: parse_price_pairs_def foldl_add_price_pair_invalid)

lemma edit_carCategories_cases:
  "(edit_carCategories rt a st = st)
   \<or> (\<exists>text. a = Some text \<and> text \<noteq> [] \<and> parse_price_pairs rt text \<noteq> []
        \<and> carCategories (edit_carCategories rt a st) = parse_price_pairs rt text
        \<and> localStorage (edit_carCategories rt a st) (str ''carCategories'')
            = Some (JSON_stringify rt (price_table_value (parse_price_pairs rt text))))"
  by (auto simp add: edit_carCategories_def saveSetting_def Let_def split: option.splits)

lemma edit_extras_cases:
  "(edit_extras rt a st = st)
   \<or> (\<exists>text. a = Some text \<and> text \<noteq> [] \<and> parse_price_pairs rt text \<noteq> []
        \<and> extras (edit_extras rt a st) = parse_price_pairs rt text
        \<and> localStorage (edit_extras rt a st) (str ''extras'')
            = Some (JSON_stringify rt (price_table_value (parse_price_pairs rt text))))"
  by (auto simp add: edit_extras_def saveSetting_def Let_def split: option.splits)

lemma saveSettings_carCategories:
  "(carCategories (fst (saveSettings rt st inp)) = carCategories st
     \<and> localStorage (fst (saveSettings rt st inp)) (str ''carCategories'')
         = localStorage st (str ''carCategories''))
   \<or> (\<exists>text. catInput inp = Some text \<and> text \<noteq> [] \<and> parse_price_pairs rt text \<noteq> []
        \<and> carCategories (fst (saveSettings rt st inp)) = parse_price_pairs rt text
        \<and> localStorage (fst (saveSettings rt st inp)) (str ''carCategories'')
            = Some (JSON_stringify rt (price_table_value (parse_price_pairs rt text))))"
proof (cases "phoneInput inp = None \<or> vipInput inp = None \<or> greetingInput inp = None")
  case True
  then show ?thesis by (simp add: saveSettings_unless_ok)
next
  case False
  then obtain phone code greeting where f: "phoneInput inp = Some phone" "vipInput inp = Some code"
    "greetingInput inp = Some greeting" by auto
  let ?s4 = "edit_paymentMethods rt (pay inp)
      (st \<lparr> phoneNumber := or_default (trim phone) (phoneNumber DEFAULTS),
            vipCode := or_default (trim code) (vipCode DEFAULTS),
            vipGreeting := or_default (trim greeting) (vipGreeting DEFAULTS) \<rparr>)"
  have before: "carCategories ?s4 = carCategories st"
    "localStorage ?s4 (str ''carCategories'') = localStorage st (str ''carCategories'')"
    by (simp_all add: settings_frame str_eq_iff)
  have after: "carCategories (fst (saveSettings rt st inp))
      = carCategories (edit_carCategories rt (catInput inp) ?s4)"
    "localStorage (fst (saveSettings rt st inp)) (str ''carCategories'')
      = localStorage (edit_carCategories rt (catInput inp) ?s4) (str ''carCategories'')"
    by (simp_all add: saveSettings_ok[OF f] settings_frame str_eq_iff)
  from edit_carCategories_cases[of rt "catInput inp" ?s4] show ?thesis
    unfolding after using before by auto
qed

lemma saveSettings_extras:
  "(extras (fst (saveSettings rt st inp)) = extras st
     \<and> localStorage (fst (saveSettings rt st inp)) (str ''extras'') = localStorage st (str ''extras''))
   \<or> (\<exists>text. extrasInput inp = Some text \<and> text \<noteq> [] \<and> parse_price_pairs rt text \<noteq> []
        \<and> extras (fst (saveSettings rt st inp)) = parse_price_pairs rt text
        \<and> localStorage (fst (saveSettings rt st inp)) (str ''extras'')
            = Some (JSON_stringify rt (price_table_value (parse_price_pairs rt text))))"
proof (cases "phoneInput inp = None \<or> vipInput inp = None \<or> greetingInput inp = None")
  case True
  then show ?thesis by (simp add: saveSettings_unless_ok)
next
  case False
  then obtain phone code greeting where f: "phoneInput inp = Some phone" "vipInput inp = Some code"
    "greetingInput inp = Some greeting" by auto
  let ?s5 = "edit_carCategories rt (catInput inp)
      (edit_paymentMethods rt (pay inp)
        (st \<lparr> phoneNumber := or_default (trim phone) (phoneNumber DEFAULTS),
              vipCode := or_default (trim code) (vipCode DEFAULTS),
              vipGreeting := or_default (trim greeting) (vipGreeting DEFAULTS) \<rparr>))"
  have before: "extras ?s5 = extras st"
    "localStorage ?s5 (str ''extras'') = localStorage st (str ''extras'')"
    by (simp_all add: settings_frame str_eq_iff)
  have after: "extras (fst (saveSettings rt st inp)) = extras (edit_extras rt (extrasInput inp) ?s5)"
    "localStorage (fst (saveSettings rt st inp)) (str ''extras'')
      = localStorage (edit_extras rt (extrasInput inp) ?s5) (str ''extras'')"
    by (simp_all add: saveSettings_ok[OF f] settings_frame str_eq_iff)
  from edit_extras_cases[of rt "extrasInput inp" ?s5] show ?thesis
    unfolding after using before by auto
qed

lemma saveSettings_tables_nonempty:
  assumes "carCategories st \<noteq> [] \<and> extras st \<noteq> []"
  shows "carCategories (fst (saveSettings rt st inp)) \<noteq> []
    \<and> extras (fst (saveSettings rt st inp)) \<noteq> []"
  using saveSettings_carCategories[of rt st inp] saveSettings_extras[of rt st inp] assms by auto

lemma saveSettings_all_tables_nonempty:
  assumes "carCategories st \<noteq> [] \<and> extras st \<noteq> []"
  shows "carCategories (saveSettings_all rt st inps) \<noteq> []
    \<and> extras (saveSettings_all rt st inps) \<noteq> []"
  using assms
proof (induction inps arbitrary: st)
  case Nil
  then show ?case by (simp add: saveSettings_all_def)
next
  case (Cons inp inps)
  from Cons.IH[OF saveSettings_tables_nonempty[OF Cons.prems, of rt inp]]
  show ?case by (simp add: saveSettings_all_def)
qed

text \<open>
  Claim C10. When the answer to the categories prompt (or to the extras prompt) is not
  empty but holds no valid pair, that is, every comma-separated pair lacks a name, lacks
  a price or has a price that does not parse as a number, \<open>saveSettings\<close> keeps the prior
  table, in memory and in the store. A table is replaced only by a table that is not
  empty, so tables that are not empty stay so, and after any series of calls on a
  freshly loaded page (the defaults) \<open>carCategories\<close> and \<open>extras\<close> are not empty.
\<close>

theorem price_tables_never_emptied:
  "(catInput inp = Some cats_answer \<and> cats_answer \<noteq> []
      \<and> \<not> list_ex (valid_pair rt) (split_on 44 cats_answer)
      \<longrightarrow> carCategories (fst (saveSettings rt st inp)) = carCategories st
          \<and> localStorage (fst (saveSettings rt st inp)) (str ''carCategories'')
              = localStorage st (str ''carCategories''))
   \<and> (extrasInput inp = Some extras_answer \<and> extras_answer \<noteq> []
      \<and> \<not> list_ex (valid_pair rt) (split_on 44 extras_answer)
      \<longrightarrow> extras (fst (saveSettings rt st inp)) = extras st
          \<and> localStorage (fst (saveSettings rt st inp)) (str ''extras'')
              = localStorage st (str ''extras''))
   \<and> (carCategories st \<noteq> [] \<longrightarrow> carCategories (fst (saveSettings rt st inp)) \<noteq> [])
   \<and> (extras st \<noteq> [] \<longrightarrow> extras (fst (saveSettings rt st inp)) \<noteq> [])
   \<and> carCategories (saveSettings_all rt fresh_state inps) \<noteq> []
   \<and> extras (saveSettings_all rt fresh_state inps) \<noteq> []"
proof (intro conjI impI)
  {
    assume "catInput inp = Some cats_answer \<and> cats_answer \<noteq> []
      \<and> \<not> list_ex (valid_pair rt) (split_on 44 cats_answer)"
    then have "catInput inp = Some cats_answer" "parse_price_pairs rt cats_answer = []"
      by (simp_all add: parse_price_pairs_invalid)
    then show "carCategories (fst (saveSettings rt st inp)) = carCategories st"
      "localStorage (fst (saveSettings rt st inp)) (str ''carCategories'')
        = localStorage st (str ''carCategories'')"
      using saveSettings_carCategories[of rt st inp] by auto
  }
  {
    assume "extrasInput inp = Some extras_answer \<and> extras_answer \<noteq> []
      \<and> \<not> list_ex (valid_pair rt) (split_on 44 extras_answer)"
    then have "extrasInput inp = Some extras_answer" "parse_price_pairs rt extras_answer = []"
      by (simp_all add: parse_price_pairs_invalid)
    then show "extras (fst (saveSettings rt st inp)) = extras st"
      "localStorage (fst (saveSettings rt st inp)) (str ''extras'') = localStorage st (str ''extras'')"
      using saveSettings_extras[of rt st inp] by auto
  }
  show "carCategories (fst (saveSettings rt st inp)) \<noteq> []" if "carCategories st \<noteq> []"
    using saveSettings_carCategories[of rt st inp] that by auto
  show "extras (fst (saveSettings rt st inp)) \<noteq> []" if "extras st \<noteq> []"
    using saveSettings_extras[of rt st inp] that by auto
  have fresh: "carCategories fresh_state \<noteq> [] \<and> extras fresh_state \<noteq> []"
    using fresh_state_fields(5,6) by (rule conjI)
  show "carCategories (saveSettings_all rt fresh_state inps) \<noteq> []"
    "extras (saveSettings_all rt fresh_state inps) \<noteq> []"
    using saveSettings_all_tables_nonempty[OF fresh, of rt inps] by blast+
qed


lemma no_valid_pair_form_fields:
  "catInput no_valid_pair_form = Some (str ''Van:cheap, :40, Bus'')"
  "extrasInput no_valid_pair_form = Some (str '':, x'')"
  by (simp_all add: no_valid_pair_form_def empty_form_def)

lemma no_valid_pair_examples:
  "\<not> list_ex (valid_pair example_runtime) (split_on 44 (str ''Van:cheap, :40, Bus''))"
  "\<not> list_ex (valid_pair example_runtime) (split_on 44 (str '':, x''))"
  by (simp_all add: valid_pair_def example_runtime_def example_parseFloat_def trim_def
      is_space_def str_def)

theorem price_tables_never_emptied_witness:
  "carCategories (fst (saveSettings example_runtime fresh_state no_valid_pair_form))
     = carCategories DEFAULTS
   \<and> extras (fst (saveSettings example_runtime fresh_state no_valid_pair_form)) = extras DEFAULTS
   \<and> localStorage (fst (saveSettings example_runtime fresh_state no_valid_pair_form))
       (str ''carCategories'') = None
   \<and> carCategories (saveSettings_all example_runtime fresh_state
        [no_valid_pair_form, deposit_25_form]) \<noteq> []"
  using price_tables_never_emptied[where inp = no_valid_pair_form
      and cats_answer = "str ''Van:cheap, :40, Bus''" and rt = example_runtime
      and extras_answer = "str '':, x''" and st = fresh_state
      and inps = "[no_valid_pair_form, deposit_25_form]"]
  by (simp add: no_valid_pair_form_fields no_valid_pair_examples fresh_state_fields str_Nil_iff)

end
